theory Spec2Isabelle
  imports Complex_Main
begin

section \<open>Data model\<close>

text \<open>
  The cart context (\<open>CartContext\<close>, in \<open>src/unnamed/part_001\<close>) keeps cart lines of the
  interface \<open>CartItem\<close>. The field \<open>id\<close> is written \<open>id_line\<close>, since \<open>id\<close> is the
  identity function of HOL. Quantities are JavaScript numbers that hold integers
  (doubles: sums are rounded, see \<open>js_add\<close>); prices are rationals (the column is
  \<open>NUMERIC(10,2)\<close>).
\<close>

record CartItem =
  id_line :: string
  product_id :: string
  title :: string
  price :: rat
  qty :: int
  images :: "string list"

text \<open>
  The backend tables the cart touches, from the migration: \<open>products\<close> (the columns the
  cart reads) and \<open>cart_items\<close> (the columns the cart writes; \<open>id\<close>, \<open>created_at\<close> and
  \<open>updated_at\<close> are filled by the database and never read back by a mutation).
\<close>

record Product =
  prod_id :: string
  prod_title :: string
  prod_price :: rat
  prod_images :: "string list"

record cart_items_row =
  row_user_id :: string
  row_product_id :: string
  row_qty :: int

record database =
  products :: "Product list"
  cart_items :: "cart_items_row list"

text \<open>
  The value under the key \<open>picamart-cart\<close> of the device storage is a text, and the
  model keeps of a text what the code can tell of it: the empty text (falsy, so that
  \<open>if (localCart)\<close> and \<open>localCart ? .. : []\<close> take it for a key that is not set), a
  text that is not empty and is no JSON (\<open>JSON.parse\<close> throws a \<open>SyntaxError\<close>), or the
  JSON text of a value, which \<open>JSON.parse\<close> returns and for which \<open>JSON.stringify\<close>
  writes the text. A key that is not set is \<open>None\<close>. The type \<open>'v\<close> is the type of the
  values: \<open>loadLocalCart\<close> handles any value and is stated for every \<open>'v\<close>; the mutations
  read the value as a list of lines, the only value the cart context writes, and are
  stated for \<open>'v = CartItem list\<close>.
\<close>

datatype 'v stored_text = Empty_text | Not_JSON | JSON_of 'v

datatype js_error = SyntaxError

definition JSON_parse :: "'v stored_text \<Rightarrow> js_error + 'v" where
  "JSON_parse t =
     (case t of Empty_text \<Rightarrow> Inl SyntaxError | Not_JSON \<Rightarrow> Inl SyntaxError | JSON_of v \<Rightarrow> Inr v)"

definition JSON_stringify :: "'v \<Rightarrow> 'v stored_text" where
  "JSON_stringify v = JSON_of v"

text \<open>The values of JSON, for the stored texts that are not lists of lines (\<open>null\<close>,
  \<open>{}\<close>, \<open>"abc"\<close>, \<open>[1, 2]\<close>, ...).\<close>

datatype json =
  JNull | JBool bool | JNumber rat | JString string | JArray "json list"
  | JObject "(string \<times> json) list"

record toast_msg =
  toast_title :: string
  toast_description :: string
  toast_destructive :: bool

text \<open>
  The state a cart operation reads and writes: the signed-in user's id (\<open>None\<close> when
  anonymous), the React state \<open>items\<close>, the storage key, the backend tables, and the two
  channels on which a failure is reported, the notifications (\<open>toast\<close>) and the log
  (\<open>console.error\<close>).
\<close>

record 'v state =
  user :: "string option"
  items :: 'v
  localStorage :: "'v stored_text option"
  db :: database
  toasts :: "toast_msg list"
  console :: "string list"

text \<open>
  What a call takes from outside: whether the backend reports an error for the write on
  \<open>cart_items\<close>, whether it does for the read on \<open>products\<close>, and the text of
  \<open>Math.random().toString(36)\<close>.
\<close>

record env =
  write_fails :: bool
  read_fails :: bool
  random_id :: string

type_synonym cart_state = "CartItem list state"

section \<open>The backend requests\<close>

datatype backend_error = Request_failed | Foreign_key_violation

text \<open>\<open>from('products').select(..).eq('id', productId).single()\<close>: the row when exactly
  one matches, no data otherwise.\<close>

definition select_product :: "bool \<Rightarrow> database \<Rightarrow> string \<Rightarrow> Product option" where
  "select_product fails d productId =
     (if fails then None
      else case filter (\<lambda>p. prod_id p = productId) (products d) of
             [p] \<Rightarrow> Some p
           | _ \<Rightarrow> None)"

text \<open>\<open>upsert(row, {onConflict: 'user_id,product_id'})\<close>: the insert needs the product
  (\<open>product_id\<close> references \<open>products(id)\<close>); on a conflict with the key
  \<open>(user_id, product_id)\<close> the existing row takes the new row's columns.\<close>

definition conflicts :: "cart_items_row \<Rightarrow> cart_items_row \<Rightarrow> bool" where
  "conflicts r x \<longleftrightarrow> row_user_id x = row_user_id r \<and> row_product_id x = row_product_id r"

definition upsert_cart_items :: "bool \<Rightarrow> database \<Rightarrow> cart_items_row \<Rightarrow> backend_error + database" where
  "upsert_cart_items fails d r =
     (if fails then Inl Request_failed
      else if row_product_id r \<notin> set (map prod_id (products d)) then Inl Foreign_key_violation
      else if list_ex (conflicts r) (cart_items d)
        then Inr (d\<lparr>cart_items := map (\<lambda>x. if conflicts r x then x\<lparr>row_qty := row_qty r\<rparr> else x) (cart_items d)\<rparr>)
        else Inr (d\<lparr>cart_items := cart_items d @ [r]\<rparr>))"

text \<open>\<open>update({qty}).eq('user_id', ..).eq('product_id', ..)\<close>\<close>

definition update_cart_items :: "bool \<Rightarrow> database \<Rightarrow> string \<Rightarrow> string \<Rightarrow> int \<Rightarrow> backend_error + database" where
  "update_cart_items fails d uid productId q =
     (if fails then Inl Request_failed
      else Inr (d\<lparr>cart_items :=
             map (\<lambda>x. if row_user_id x = uid \<and> row_product_id x = productId then x\<lparr>row_qty := q\<rparr> else x)
               (cart_items d)\<rparr>))"

text \<open>\<open>delete().eq('user_id', ..).eq('product_id', ..)\<close> and \<open>delete().eq('user_id', ..)\<close>\<close>

definition delete_cart_item :: "bool \<Rightarrow> database \<Rightarrow> string \<Rightarrow> string \<Rightarrow> backend_error + database" where
  "delete_cart_item fails d uid productId =
     (if fails then Inl Request_failed
      else Inr (d\<lparr>cart_items :=
             filter (\<lambda>x. \<not> (row_user_id x = uid \<and> row_product_id x = productId)) (cart_items d)\<rparr>))"

definition delete_cart :: "bool \<Rightarrow> database \<Rightarrow> string \<Rightarrow> backend_error + database" where
  "delete_cart fails d uid =
     (if fails then Inl Request_failed
      else Inr (d\<lparr>cart_items := filter (\<lambda>x. row_user_id x \<noteq> uid) (cart_items d)\<rparr>))"

text \<open>The quantity of a user's line for a product in the remote cart.\<close>

definition remote_qty :: "database \<Rightarrow> string \<Rightarrow> string \<Rightarrow> int option" where
  "remote_qty d uid productId =
     map_option row_qty
       (find (\<lambda>x. row_user_id x = uid \<and> row_product_id x = productId) (cart_items d))"

section \<open>The cart operations\<close>

text \<open>\<open>Array.prototype.findIndex\<close>: the first index whose element satisfies the test,
  \<open>-1\<close> when there is none.\<close>

fun findIndex :: "('a \<Rightarrow> bool) \<Rightarrow> 'a list \<Rightarrow> int" where
  "findIndex P [] = -1"
| "findIndex P (x # xs) = (if P x then 0 else (let i = findIndex P xs in if i < 0 then -1 else i + 1))"

text \<open>
  A quantity is a JavaScript number, a double, and \<open>+\<close> gives the double nearest to the
  exact sum, the even one of two at the same distance. On integer values: a sum of at
  most 53 bits is exact; a longer one keeps its 53 leading bits, rounded. Sums from
  \<open>2^1024\<close> on, which the code turns into \<open>Infinity\<close>, are beyond the model.
\<close>

fun bit_length :: "nat \<Rightarrow> nat" where
  "bit_length n = (if n = 0 then 0 else Suc (bit_length (n div 2)))"

declare bit_length.simps [simp del]

definition to_double :: "int \<Rightarrow> int" where
  "to_double x =
     (if \<bar>x\<bar> \<le> 2 ^ 53 then x
      else let ulp = 2 ^ (bit_length (nat \<bar>x\<bar>) - 53);
               m = \<bar>x\<bar> div ulp;
               r = \<bar>x\<bar> mod ulp;
               m' = (if 2 * r < ulp \<or> (2 * r = ulp \<and> even m) then m else m + 1)
           in sgn x * (m' * ulp))"

definition js_add :: "int \<Rightarrow> int \<Rightarrow> int" where
  "js_add a b = to_double (a + b)"

text \<open>The integers that every double arithmetic keeps exact: up to \<open>2^53\<close> either way.\<close>

definition exact_integer :: "int \<Rightarrow> bool" where
  "exact_integer i \<longleftrightarrow> \<bar>i\<bar> \<le> 2 ^ 53"

text \<open>\<open>localCart ? JSON.parse(localCart) : []\<close>\<close>

definition read_local :: "CartItem list stored_text option \<Rightarrow> js_error + CartItem list" where
  "read_local v =
     (case v of None \<Rightarrow> Inr [] | Some Empty_text \<Rightarrow> Inr [] | Some t \<Rightarrow> JSON_parse t)"

text \<open>\<open>if (localCart) { setItems(JSON.parse(localCart)); }\<close>\<close>

definition loadLocalCart :: "'v state \<Rightarrow> js_error + 'v state" where
  "loadLocalCart st =
     (case localStorage st of
        None \<Rightarrow> Inr st
      | Some Empty_text \<Rightarrow> Inr st
      | Some t \<Rightarrow> (case JSON_parse t of
                    Inl err \<Rightarrow> Inl err
                  | Inr v \<Rightarrow> Inr (st\<lparr>items := v\<rparr>)))"

definition added_toast :: "string \<Rightarrow> toast_msg" where
  "added_toast name =
     \<lparr>toast_title = ''Added to cart'',
      toast_description = name @ '' has been added to your cart.'',
      toast_destructive = False\<rparr>"

definition error_toast :: "string \<Rightarrow> toast_msg" where
  "error_toast what = \<lparr>toast_title = ''Error'', toast_description = what, toast_destructive = True\<rparr>"

definition addToCart :: "env \<Rightarrow> cart_state \<Rightarrow> string \<Rightarrow> int \<Rightarrow> js_error + cart_state" where
  "addToCart e st productId q =
     (case user st of
        None \<Rightarrow>
          (case read_local (localStorage st) of
             Inl err \<Rightarrow> Inl err
           | Inr currentItems \<Rightarrow>
               (case select_product (read_fails e) (db st) productId of
                  None \<Rightarrow> Inr st
                | Some product \<Rightarrow>
                    (let existingIndex = findIndex (\<lambda>item. product_id item = productId) currentItems;
                         updated =
                           (if 0 \<le> existingIndex
                            then currentItems[nat existingIndex :=
                                   (currentItems ! nat existingIndex)
                                     \<lparr>qty := js_add (qty (currentItems ! nat existingIndex)) q\<rparr>]
                            else currentItems @
                                   [\<lparr>id_line = random_id e, product_id = productId,
                                     title = prod_title product, price = prod_price product,
                                     qty = q, images = prod_images product\<rparr>])
                     in Inr (st\<lparr>localStorage := Some (JSON_stringify updated),
                                items := updated,
                                toasts := toasts st @ [added_toast (prod_title product)]\<rparr>))))
      | Some uid \<Rightarrow>
          (case upsert_cart_items (write_fails e) (db st)
                  \<lparr>row_user_id = uid, row_product_id = productId, row_qty = q\<rparr> of
             Inl err \<Rightarrow>
               Inr (st\<lparr>toasts := toasts st @ [error_toast ''Failed to add item to cart.''],
                       console := console st @ [''Error adding to cart:'']\<rparr>)
           | Inr d \<Rightarrow>
               Inr (st\<lparr>db := d,
                       toasts := toasts st @
                         [added_toast
                            (case select_product (read_fails e) d productId of
                               None \<Rightarrow> ''Item''
                             | Some product \<Rightarrow>
                                 if prod_title product = [] then ''Item'' else prod_title product)]\<rparr>)))"

definition removeFromCart :: "env \<Rightarrow> cart_state \<Rightarrow> string \<Rightarrow> js_error + cart_state" where
  "removeFromCart e st productId =
     (case user st of
        None \<Rightarrow>
          (case read_local (localStorage st) of
             Inl err \<Rightarrow> Inl err
           | Inr currentItems \<Rightarrow>
               (let updatedItems = filter (\<lambda>item. product_id item \<noteq> productId) currentItems
                in Inr (st\<lparr>localStorage := Some (JSON_stringify updatedItems),
                           items := updatedItems\<rparr>)))
      | Some uid \<Rightarrow>
          (case delete_cart_item (write_fails e) (db st) uid productId of
             Inl err \<Rightarrow>
               Inr (st\<lparr>toasts := toasts st @ [error_toast ''Failed to remove item from cart.''],
                       console := console st @ [''Error removing from cart:'']\<rparr>)
           | Inr d \<Rightarrow>
               Inr (st\<lparr>db := d,
                       toasts := toasts st @
                         [\<lparr>toast_title = ''Removed from cart'',
                           toast_description = ''Item has been removed from your cart.'',
                           toast_destructive = False\<rparr>]\<rparr>)))"

definition updateQuantity :: "env \<Rightarrow> cart_state \<Rightarrow> string \<Rightarrow> int \<Rightarrow> js_error + cart_state" where
  "updateQuantity e st productId q =
     (if q \<le> 0 then removeFromCart e st productId
      else case user st of
        None \<Rightarrow>
          (case read_local (localStorage st) of
             Inl err \<Rightarrow> Inl err
           | Inr currentItems \<Rightarrow>
               (let updatedItems =
                      map (\<lambda>item. if product_id item = productId then item\<lparr>qty := q\<rparr> else item)
                        currentItems
                in Inr (st\<lparr>localStorage := Some (JSON_stringify updatedItems),
                           items := updatedItems\<rparr>)))
      | Some uid \<Rightarrow>
          (case update_cart_items (write_fails e) (db st) uid productId q of
             Inl err \<Rightarrow>
               Inr (st\<lparr>toasts := toasts st @ [error_toast ''Failed to update quantity.''],
                       console := console st @ [''Error updating quantity:'']\<rparr>)
           | Inr d \<Rightarrow> Inr (st\<lparr>db := d\<rparr>)))"

definition clearCart :: "env \<Rightarrow> cart_state \<Rightarrow> js_error + cart_state" where
  "clearCart e st =
     (case user st of
        None \<Rightarrow> Inr (st\<lparr>localStorage := None, items := []\<rparr>)
      | Some uid \<Rightarrow>
          (case delete_cart (write_fails e) (db st) uid of
             Inl err \<Rightarrow> Inr (st\<lparr>console := console st @ [''Error clearing cart:'']\<rparr>)
           | Inr d \<Rightarrow> Inr (st\<lparr>db := d\<rparr>)))"

text \<open>The loop of \<open>syncLocalCart\<close>: one \<open>addToCart\<close> per local line, in order; the
  \<open>k\<close>-th call meets the outside world \<open>envs k\<close>.\<close>

fun add_each :: "(nat \<Rightarrow> env) \<Rightarrow> nat \<Rightarrow> CartItem list \<Rightarrow> cart_state \<Rightarrow> js_error + cart_state" where
  "add_each envs k [] st = Inr st"
| "add_each envs k (item # rest) st =
     (case addToCart (envs k) st (product_id item) (qty item) of
        Inl err \<Rightarrow> Inl err
      | Inr st' \<Rightarrow> add_each envs (Suc k) rest st')"

definition syncLocalCart :: "(nat \<Rightarrow> env) \<Rightarrow> cart_state \<Rightarrow> js_error + cart_state" where
  "syncLocalCart envs st =
     (case user st of
        None \<Rightarrow> Inr st
      | Some uid \<Rightarrow>
          (case localStorage st of
             None \<Rightarrow> Inr st
           | Some Empty_text \<Rightarrow> Inr st
           | Some t \<Rightarrow>
               (case JSON_parse t of
                  Inl err \<Rightarrow> Inl err
                | Inr localItems \<Rightarrow>
                    (case add_each envs 0 localItems st of
                       Inl err \<Rightarrow> Inl err
                     | Inr st' \<Rightarrow> Inr (st'\<lparr>localStorage := None\<rparr>)))))"

section \<open>The order identifier\<close>

text \<open>
  The function \<open>generate_order_id()\<close> of the migration, on the column \<open>order_id\<close> of the
  table \<open>orders\<close>. \<open>now_ms\<close> is \<open>(EXTRACT(EPOCH FROM NOW()) * 1000)::BIGINT\<close>; \<open>NOW()\<close> is
  the start of the transaction, so it is the same at every turn of the loop. \<open>draws k\<close>
  is the value of \<open>FLOOR(RANDOM() * 100)\<close> at turn \<open>k\<close>. \<open>LPAD\<close> fills on the left up to
  the length asked and cuts a longer text on the right; \<open>RIGHT\<close> keeps the last
  characters. A loop that never finds a free identifier never returns: \<open>None\<close>.
\<close>

record orders_row =
  order_id :: string
  order_user_id :: string
  amount_total :: rat

definition digit_chars :: string where
  "digit_chars = ''0123456789''"

fun nat_text :: "nat \<Rightarrow> string" where
  "nat_text n = (if n < 10 then [digit_chars ! n] else nat_text (n div 10) @ [digit_chars ! (n mod 10)])"

declare nat_text.simps [simp del]

definition bigint_text :: "int \<Rightarrow> string" where
  "bigint_text i = (if i < 0 then CHR ''-'' # nat_text (nat (- i)) else nat_text (nat i))"

definition lpad :: "string \<Rightarrow> nat \<Rightarrow> string \<Rightarrow> string" where
  "lpad s n fill =
     (if n \<le> length s then take n s
      else take (n - length s) (concat (replicate (n - length s) fill)) @ s)"

definition right_text :: "string \<Rightarrow> nat \<Rightarrow> string" where
  "right_text s n = drop (length s - n) s"

definition new_id :: "int \<Rightarrow> nat \<Rightarrow> string" where
  "new_id now_ms r = right_text (lpad (bigint_text now_ms) 10 ''0'' @ lpad (nat_text r) 2 ''0'') 12"

definition exists_check :: "orders_row list \<Rightarrow> string \<Rightarrow> bool" where
  "exists_check orders i = list_ex (\<lambda>row. order_id row = i) orders"

partial_function (option) generate_order_id_from ::
  "orders_row list \<Rightarrow> int \<Rightarrow> (nat \<Rightarrow> nat) \<Rightarrow> nat \<Rightarrow> string option" where
  "generate_order_id_from orders now_ms draws k =
     (if exists_check orders (new_id now_ms (draws k))
      then generate_order_id_from orders now_ms draws (Suc k)
      else Some (new_id now_ms (draws k)))"

definition generate_order_id :: "orders_row list \<Rightarrow> int \<Rightarrow> (nat \<Rightarrow> nat) \<Rightarrow> string option" where
  "generate_order_id orders now_ms draws = generate_order_id_from orders now_ms draws 0"

text \<open>The result is the first candidate that is free, counted from turn \<open>k\<close>.\<close>

definition first_free :: "orders_row list \<Rightarrow> int \<Rightarrow> (nat \<Rightarrow> nat) \<Rightarrow> nat \<Rightarrow> string \<Rightarrow> bool" where
  "first_free orders now_ms draws k oid \<longleftrightarrow>
     (\<exists>n\<ge>k. oid = new_id now_ms (draws n)
        \<and> \<not> exists_check orders oid
        \<and> (\<forall>j. k \<le> j \<and> j < n \<longrightarrow> exists_check orders (new_id now_ms (draws j))))"

section \<open>Reading a cart\<close>

text \<open>The lines the storage key holds (none when the key is not set or holds the empty
  text), and the quantity
  of the line of a product in a list of lines.\<close>

definition local_lines :: "cart_state \<Rightarrow> CartItem list" where
  "local_lines st = (case localStorage st of Some (JSON_of ls) \<Rightarrow> ls | _ \<Rightarrow> [])"

definition line_qty :: "CartItem list \<Rightarrow> string \<Rightarrow> int option" where
  "line_qty ls productId = map_option qty (find (\<lambda>item. product_id item = productId) ls)"

text \<open>The invariant of the data model: at most one line per product, in the stored cart
  and in the rendered one.\<close>

definition unique_products :: "cart_state \<Rightarrow> bool" where
  "unique_products st \<longleftrightarrow>
     distinct (map product_id (local_lines st)) \<and> distinct (map product_id (items st))"

text \<open>The step \<open>currentItems[existingIndex].qty += qty\<close>.\<close>

definition bump :: "int \<Rightarrow> CartItem list \<Rightarrow> nat \<Rightarrow> CartItem list" where
  "bump q ls i = ls[i := (ls ! i)\<lparr>qty := js_add (qty (ls ! i)) q\<rparr>]"

text \<open>The rows after an accepted upsert, the test of the key \<open>(user_id, product_id)\<close>, and the
  name the confirmation of the authenticated path shows (\<open>product?.title || 'Item'\<close>).\<close>

definition upserted :: "cart_items_row list \<Rightarrow> cart_items_row \<Rightarrow> cart_items_row list" where
  "upserted rows r =
     (if list_ex (conflicts r) rows
      then map (\<lambda>x. if conflicts r x then x\<lparr>row_qty := row_qty r\<rparr> else x) rows
      else rows @ [r])"

definition has_key :: "string \<Rightarrow> string \<Rightarrow> cart_items_row \<Rightarrow> bool" where
  "has_key u p x \<longleftrightarrow> row_user_id x = u \<and> row_product_id x = p"

definition item_name :: "bool \<Rightarrow> database \<Rightarrow> string \<Rightarrow> string" where
  "item_name fails d p =
     (case select_product fails d p of
        None \<Rightarrow> ''Item''
      | Some product \<Rightarrow> if prod_title product = [] then ''Item'' else prod_title product)"

section \<open>Sample data\<close>

definition phone :: Product where
  "phone = \<lparr>prod_id = ''A'', prod_title = ''Phone'', prod_price = 100, prod_images = []\<rparr>"

definition laptop :: Product where
  "laptop = \<lparr>prod_id = ''B'', prod_title = ''Laptop'', prod_price = 50, prod_images = []\<rparr>"

definition shop :: "cart_items_row list \<Rightarrow> database" where
  "shop rows = \<lparr>products = [phone, laptop], cart_items = rows\<rparr>"

definition line :: "string \<Rightarrow> int \<Rightarrow> CartItem" where
  "line p q = \<lparr>id_line = ''0.4fzyo82mvyr'', product_id = p, title = ''Item'', price = 100,
               qty = q, images = []\<rparr>"

definition row :: "string \<Rightarrow> string \<Rightarrow> int \<Rightarrow> cart_items_row" where
  "row uid p q = \<lparr>row_user_id = uid, row_product_id = p, row_qty = q\<rparr>"

definition calm :: env where
  "calm = \<lparr>write_fails = False, read_fails = False, random_id = ''0.8k3j2h1g5f''\<rparr>"

definition stormy :: env where
  "stormy = \<lparr>write_fails = True, read_fails = True, random_id = ''0.8k3j2h1g5f''\<rparr>"

definition always :: "env \<Rightarrow> nat \<Rightarrow> env" where
  "always e k = e"

definition stormy_first :: "nat \<Rightarrow> env" where
  "stormy_first k = (if k = 0 then stormy else calm)"

definition anonymous :: "CartItem list stored_text option \<Rightarrow> cart_state" where
  "anonymous v =
     \<lparr>user = None, items = [], localStorage = v, db = shop [], toasts = [], console = []\<rparr>"

definition signed_in :: "cart_items_row list \<Rightarrow> CartItem list stored_text option \<Rightarrow> cart_state" where
  "signed_in rows v =
     \<lparr>user = Some ''u1'', items = [], localStorage = v, db = shop rows, toasts = [], console = []\<rparr>"

definition draws_7_42 :: "nat \<Rightarrow> nat" where
  "draws_7_42 k = (if k = 0 then 7 else 42)"

definition order :: "string \<Rightarrow> orders_row" where
  "order i = \<lparr>order_id = i, order_user_id = ''u1'', amount_total = 250\<rparr>"

lemmas sample_defs =
  phone_def laptop_def shop_def line_def row_def calm_def stormy_def always_def
  stormy_first_def anonymous_def signed_in_def

section \<open>Properties of the operations\<close>

subsection \<open>Reading the storage\<close>

lemma read_local_simps:
  "read_local None = Inr []"
  "read_local (Some Empty_text) = Inr []"
  "read_local (Some Not_JSON) = Inl SyntaxError"
  "read_local (Some (JSON_of ls)) = Inr ls"
  by (simp_all add: read_local_def JSON_parse_def)

lemma read_local_lines:
  "localStorage st \<noteq> Some Not_JSON \<Longrightarrow> read_local (localStorage st) = Inr (local_lines st)"
  by (cases "localStorage st"; simp add: read_local_simps local_lines_def split: stored_text.splits)

subsection \<open>Searching a list of lines\<close>

lemma findIndex_ge: "- 1 \<le> findIndex P xs"
  by (induction xs) (auto simp: Let_def)

lemma findIndex_absent: "(findIndex P xs < 0) = (\<forall>x\<in>set xs. \<not> P x)"
  using findIndex_ge [of P]
  by (induction xs) (auto simp: Let_def)

lemma findIndex_present:
  "0 \<le> findIndex P xs \<Longrightarrow> nat (findIndex P xs) < length xs \<and> P (xs ! nat (findIndex P xs))"
proof (induction xs)
  case Nil
  then show ?case by simp
next
  case (Cons x xs)
  show ?case
  proof (cases "P x")
    case True
    then show ?thesis by simp
  next
    case False
    with Cons.prems have nn: "0 \<le> findIndex P xs"
      by (simp add: Let_def split: if_splits)
    with Cons.IH have "nat (findIndex P xs) < length xs \<and> P (xs ! nat (findIndex P xs))" by simp
    with False nn show ?thesis
      by (simp add: Let_def nat_add_distrib)
  qed
qed

lemma findIndex_first:
  "0 \<le> findIndex P xs \<Longrightarrow> find P xs = Some (xs ! nat (findIndex P xs))"
proof (induction xs)
  case Nil
  then show ?case by simp
next
  case (Cons x xs)
  show ?case
  proof (cases "P x")
    case True
    then show ?thesis by simp
  next
    case False
    with Cons.prems have nn: "0 \<le> findIndex P xs"
      by (simp add: Let_def split: if_splits)
    with Cons.IH have "find P xs = Some (xs ! nat (findIndex P xs))" by simp
    with False nn show ?thesis
      by (simp add: Let_def nat_add_distrib)
  qed
qed

subsection \<open>The anonymous path, operation by operation\<close>

lemma addToCart_anonymous_no_product:
  assumes "user st = None" "localStorage st \<noteq> Some Not_JSON"
    and "select_product (read_fails e) (db st) p = None"
  shows "addToCart e st p q = Inr st"
  using assms by (simp add: addToCart_def read_local_lines)

lemma addToCart_anonymous_new:
  assumes "user st = None" "localStorage st \<noteq> Some Not_JSON"
    and "select_product (read_fails e) (db st) p = Some product"
    and "p \<notin> set (map product_id (local_lines st))"
  shows "addToCart e st p q =
     Inr (st\<lparr>localStorage := Some (JSON_of (local_lines st @
                 [\<lparr>id_line = random_id e, product_id = p, title = prod_title product,
                   price = prod_price product, qty = q, images = prod_images product\<rparr>])),
             items := local_lines st @
                 [\<lparr>id_line = random_id e, product_id = p, title = prod_title product,
                   price = prod_price product, qty = q, images = prod_images product\<rparr>],
             toasts := toasts st @ [added_toast (prod_title product)]\<rparr>)"
proof -
  from assms(4) have "findIndex (\<lambda>item. product_id item = p) (local_lines st) < 0"
    by (auto simp: findIndex_absent)
  with assms(1-3) show ?thesis
    by (simp add: addToCart_def read_local_lines JSON_stringify_def Let_def)
qed

lemma addToCart_anonymous_existing:
  assumes "user st = None" "localStorage st \<noteq> Some Not_JSON"
    and "select_product (read_fails e) (db st) p = Some product"
    and "p \<in> set (map product_id (local_lines st))"
  shows "addToCart e st p q =
     Inr (st\<lparr>localStorage := Some (JSON_of (bump q (local_lines st)
                  (nat (findIndex (\<lambda>item. product_id item = p) (local_lines st))))),
             items := bump q (local_lines st)
                  (nat (findIndex (\<lambda>item. product_id item = p) (local_lines st))),
             toasts := toasts st @ [added_toast (prod_title product)]\<rparr>)"
proof -
  from assms(4) have "\<not> findIndex (\<lambda>item. product_id item = p) (local_lines st) < 0"
    by (auto simp: findIndex_absent)
  with assms(1-3) show ?thesis
    by (simp add: addToCart_def read_local_lines JSON_stringify_def Let_def bump_def)
qed

lemma product_ids_bump: "map product_id (bump q ls i) = map product_id ls"
  by (cases "i < length ls") (simp_all add: bump_def map_update list_update_same_conv list_update_beyond)

lemma removeFromCart_anonymous:
  assumes "user st = None" "localStorage st \<noteq> Some Not_JSON"
  shows "removeFromCart e st p =
     Inr (st\<lparr>localStorage := Some (JSON_of (filter (\<lambda>item. product_id item \<noteq> p) (local_lines st))),
             items := filter (\<lambda>item. product_id item \<noteq> p) (local_lines st)\<rparr>)"
  using assms by (simp add: removeFromCart_def read_local_lines JSON_stringify_def Let_def)

lemma updateQuantity_anonymous:
  assumes "user st = None" "localStorage st \<noteq> Some Not_JSON" "0 < q"
  shows "updateQuantity e st p q =
     Inr (st\<lparr>localStorage := Some (JSON_of (map (\<lambda>item. if product_id item = p then item\<lparr>qty := q\<rparr> else item) (local_lines st))),
             items := map (\<lambda>item. if product_id item = p then item\<lparr>qty := q\<rparr> else item) (local_lines st)\<rparr>)"
  using assms by (simp add: updateQuantity_def read_local_lines JSON_stringify_def Let_def)

lemma product_ids_set_qty:
  "map product_id (map (\<lambda>item. if product_id item = p then item\<lparr>qty := q\<rparr> else item) ls) = map product_id ls"
  by (induction ls) auto

lemma local_lines_stored [simp]: "local_lines (st\<lparr>localStorage := Some (JSON_of ls)\<rparr>) = ls"
  by (simp add: local_lines_def)

lemma local_lines_other [simp]:
  "local_lines (st\<lparr>items := xs\<rparr>) = local_lines st"
  "local_lines (st\<lparr>toasts := ts\<rparr>) = local_lines st"
  by (simp_all add: local_lines_def)

lemma unique_after_add:
  assumes "user st = None" "localStorage st \<noteq> Some Not_JSON" "unique_products st"
  shows "\<exists>st'. addToCart e st p q = Inr st' \<and> unique_products st'"
proof (cases "select_product (read_fails e) (db st) p")
  case None
  with assms show ?thesis by (simp add: addToCart_anonymous_no_product)
next
  case (Some product)
  show ?thesis
  proof (cases "p \<in> set (map product_id (local_lines st))")
    case True
    with assms Some show ?thesis
      by (simp add: addToCart_anonymous_existing unique_products_def product_ids_bump)
  next
    case False
    with assms Some show ?thesis
      by (simp add: addToCart_anonymous_new unique_products_def)
  qed
qed

subsection \<open>Setting a quantity\<close>

lemma line_qty_map_set:
  "line_qty ls p = Some q0 \<Longrightarrow>
   line_qty (map (\<lambda>item. if product_id item = p then item\<lparr>qty := q\<rparr> else item) ls) p = Some q"
  by (induction ls) (auto simp: line_qty_def)

lemma map_set_qty_absent:
  "p \<notin> set (map product_id ls) \<Longrightarrow>
   map (\<lambda>item. if product_id item = p then item\<lparr>qty := q\<rparr> else item) ls = ls"
  by (induction ls) auto

lemma find_map_row_qty:
  "find (\<lambda>x. row_user_id x = u \<and> row_product_id x = p) rows = Some r \<Longrightarrow>
   map_option row_qty (find (\<lambda>x. row_user_id x = u \<and> row_product_id x = p)
     (map (\<lambda>x. if row_user_id x = u \<and> row_product_id x = p then x\<lparr>row_qty := q\<rparr> else x) rows)) = Some q"
  by (induction rows) (auto split: if_splits)

lemma updateQuantity_remote:
  assumes "user st = Some uid" "0 < q" "\<not> write_fails e"
  shows "updateQuantity e st p q =
     Inr (st\<lparr>db := (db st)\<lparr>cart_items := map (\<lambda>x. if row_user_id x = uid \<and> row_product_id x = p then x\<lparr>row_qty := q\<rparr> else x) (cart_items (db st))\<rparr>\<rparr>)"
  using assms by (simp add: updateQuantity_def update_cart_items_def)

subsection \<open>Sums of quantities\<close>

lemma js_add_exact: "exact_integer (a + b) \<Longrightarrow> js_add a b = a + b"
  by (simp add: js_add_def to_double_def exact_integer_def)

lemma bit_length_54: "bit_length 9007199254740993 = 54"
  by (simp add: bit_length.simps)

lemma js_add_rounds: "js_add 9007199254740992 1 = 9007199254740992"
  by (simp add: js_add_def to_double_def bit_length_54 Let_def)

lemma to_double_ties_to_even:
  "to_double 9007199254740993 = 9007199254740992"
  "to_double 9007199254740995 = 9007199254740996"
  "to_double (- 9007199254740993) = - 9007199254740992"
  by (simp_all add: to_double_def bit_length.simps Let_def)

text \<open>Above \<open>2^53\<close> the model rounds as the code does: one more of a product held
  \<open>2^53\<close> times leaves \<open>2^53\<close>.\<close>

lemma addToCart_rounds_large_sum:
  "addToCart calm (anonymous (Some (JSON_of [line ''A'' 9007199254740992]))) ''A'' 1
   = Inr ((anonymous (Some (JSON_of [line ''A'' 9007199254740992])))
           \<lparr>items := [line ''A'' 9007199254740992], toasts := [added_toast ''Phone'']\<rparr>)"
  by (simp add: addToCart_def read_local_def JSON_parse_def JSON_stringify_def
      select_product_def js_add_rounds sample_defs Let_def)

subsection \<open>Adding to a line\<close>

lemma bump_Cons:
  "bump q (x # xs) 0 = x\<lparr>qty := js_add (qty x) q\<rparr> # xs"
  "bump q (x # xs) (Suc i) = x # bump q xs i"
  by (simp_all add: bump_def)

lemma length_bump: "length (bump q ls i) = length ls"
  by (simp add: bump_def)

lemma line_qty_present: "line_qty ls p = Some q0 \<Longrightarrow> p \<in> set (map product_id ls)"
  by (induction ls) (auto simp: line_qty_def split: if_splits)

lemma line_qty_absent: "p \<notin> set (map product_id ls) \<Longrightarrow> line_qty ls p = None"
  by (induction ls) (auto simp: line_qty_def)

lemma findIndex_product_present:
  "p \<in> set (map product_id ls) \<Longrightarrow> 0 \<le> findIndex (\<lambda>item. product_id item = p) ls"
  using findIndex_absent [of "\<lambda>item. product_id item = p" ls] by auto

lemma line_qty_bump:
  "line_qty ls p = Some q0 \<Longrightarrow>
   line_qty (bump q ls (nat (findIndex (\<lambda>item. product_id item = p) ls))) p = Some (js_add q0 q)"
proof (induction ls)
  case Nil
  then show ?case by (simp add: line_qty_def)
next
  case (Cons x xs)
  show ?case
  proof (cases "product_id x = p")
    case True
    with Cons.prems show ?thesis
      by (simp add: line_qty_def bump_Cons)
  next
    case False
    with Cons.prems have tl: "line_qty xs p = Some q0"
      by (simp add: line_qty_def)
    then have nn: "0 \<le> findIndex (\<lambda>item. product_id item = p) xs"
      by (blast intro: line_qty_present findIndex_product_present)
    then have "nat (findIndex (\<lambda>item. product_id item = p) (x # xs))
                 = Suc (nat (findIndex (\<lambda>item. product_id item = p) xs))"
      using False by (simp add: Let_def nat_add_distrib)
    moreover have "line_qty (x # ys) p = line_qty ys p" for ys
      using False by (simp add: line_qty_def)
    ultimately show ?thesis
      using Cons.IH [OF tl] by (simp add: bump_Cons)
  qed
qed

lemma findIndex_snoc:
  "\<forall>x\<in>set xs. \<not> P x \<Longrightarrow> P y \<Longrightarrow> findIndex P (xs @ [y]) = int (length xs)"
  by (induction xs) (auto simp: Let_def)

lemma line_qty_snoc:
  "\<forall>x\<in>set ls. product_id x \<noteq> p \<Longrightarrow> product_id l = p \<Longrightarrow> line_qty (ls @ [l]) p = Some (qty l)"
  by (induction ls) (auto simp: line_qty_def)

subsection \<open>The upsert on the rows\<close>

lemma find_key_replaced:
  "find (has_key u p)
     (map (\<lambda>x. if has_key u p x then x\<lparr>row_qty := q\<rparr> else x) rows)
   = map_option (\<lambda>x. x\<lparr>row_qty := q\<rparr>) (find (has_key u p) rows)"
  by (induction rows) (auto simp: has_key_def)

lemma find_key_other_replaced:
  "u' \<noteq> u \<or> p' \<noteq> p \<Longrightarrow>
   find (has_key u' p')
     (map (\<lambda>x. if has_key u p x then x\<lparr>row_qty := q\<rparr> else x) rows)
   = find (has_key u' p') rows"
  by (induction rows) (auto simp: has_key_def)

lemma find_key_appended:
  "find (has_key u' p') (rows @ [r])
   = (case find (has_key u' p') rows of
        Some x \<Rightarrow> Some x
      | None \<Rightarrow> if has_key u' p' r then Some r else None)"
  by (induction rows) auto

lemma find_key_none: "find (has_key u p) rows = None \<longleftrightarrow> \<not> list_ex (has_key u p) rows"
  by (induction rows) auto

lemma conflicts_has_key:
  "conflicts \<lparr>row_user_id = u, row_product_id = p, row_qty = q\<rparr> = has_key u p"
  by (rule ext) (simp add: conflicts_def has_key_def)

lemma remote_qty_has_key: "remote_qty d u p = map_option row_qty (find (has_key u p) (cart_items d))"
proof -
  have "(\<lambda>x. row_user_id x = u \<and> row_product_id x = p) = has_key u p"
    by (rule ext) (simp add: has_key_def)
  then show ?thesis by (simp add: remote_qty_def)
qed

lemma upserted_new:
  "find (has_key u p) rows = None \<Longrightarrow>
   upserted rows \<lparr>row_user_id = u, row_product_id = p, row_qty = q\<rparr>
     = rows @ [\<lparr>row_user_id = u, row_product_id = p, row_qty = q\<rparr>]"
  by (simp add: upserted_def conflicts_has_key find_key_none)

lemma upserted_old:
  "find (has_key u p) rows = Some r \<Longrightarrow>
   upserted rows \<lparr>row_user_id = u, row_product_id = p, row_qty = q\<rparr>
     = map (\<lambda>x. if has_key u p x then x\<lparr>row_qty := q\<rparr> else x) rows"
proof -
  assume "find (has_key u p) rows = Some r"
  then have "list_ex (has_key u p) rows"
    using find_key_none [of u p rows] by simp
  then show ?thesis
    by (simp add: upserted_def conflicts_has_key)
qed

lemma upserted_existing:
  "find (has_key u p) rows = Some r \<Longrightarrow>
   length (upserted rows \<lparr>row_user_id = u, row_product_id = p, row_qty = q\<rparr>) = length rows"
  by (simp add: upserted_old)

lemma find_upserted_same:
  "\<exists>r. find (has_key u p) (upserted rows \<lparr>row_user_id = u, row_product_id = p, row_qty = q\<rparr>) = Some r
       \<and> row_qty r = q"
proof (cases "find (has_key u p) rows")
  case None
  have "has_key u p \<lparr>row_user_id = u, row_product_id = p, row_qty = q\<rparr>"
    by (simp add: has_key_def)
  with None show ?thesis
    by (simp add: upserted_new find_key_appended)
next
  case (Some x)
  then show ?thesis
    by (simp add: upserted_old find_key_replaced)
qed

lemma find_upserted_other:
  assumes "u' \<noteq> u \<or> p' \<noteq> p"
  shows "find (has_key u' p') (upserted rows \<lparr>row_user_id = u, row_product_id = p, row_qty = q\<rparr>)
         = find (has_key u' p') rows"
proof (cases "find (has_key u p) rows")
  case (Some x)
  with assms show ?thesis
    by (simp add: upserted_old find_key_other_replaced)
next
  case None
  from assms have "\<not> has_key u' p' \<lparr>row_user_id = u, row_product_id = p, row_qty = q\<rparr>"
    by (auto simp: has_key_def)
  with None show ?thesis
    by (simp add: upserted_new find_key_appended split: option.splits)
qed

lemma remote_qty_upserted_same:
  "remote_qty (d\<lparr>cart_items :=
      upserted (cart_items d) \<lparr>row_user_id = u, row_product_id = p, row_qty = q\<rparr>\<rparr>) u p = Some q"
  using find_upserted_same [of u p "cart_items d" q]
  by (auto simp: remote_qty_has_key)

lemma remote_qty_upserted_other:
  "u' \<noteq> u \<or> p' \<noteq> p \<Longrightarrow>
   remote_qty (d\<lparr>cart_items :=
      upserted (cart_items d) \<lparr>row_user_id = u, row_product_id = p, row_qty = q\<rparr>\<rparr>) u' p'
   = remote_qty d u' p'"
  by (simp add: remote_qty_has_key find_upserted_other)

lemma remote_qty_none: "remote_qty d u p = None \<longleftrightarrow> find (has_key u p) (cart_items d) = None"
  by (simp add: remote_qty_has_key)

lemma upsert_cart_items_accepted:
  assumes "row_product_id r \<in> set (map prod_id (products d))"
  shows "upsert_cart_items False d r = Inr (d\<lparr>cart_items := upserted (cart_items d) r\<rparr>)"
  using assms by (simp add: upsert_cart_items_def upserted_def)

subsection \<open>The authenticated path of addToCart\<close>

lemma addToCart_remote_accepted:
  assumes "user st = Some uid" "\<not> write_fails e" "p \<in> set (map prod_id (products (db st)))"
  shows "addToCart e st p q =
     Inr (st\<lparr>db := (db st)\<lparr>cart_items :=
                 upserted (cart_items (db st)) \<lparr>row_user_id = uid, row_product_id = p, row_qty = q\<rparr>\<rparr>,
             toasts := toasts st @
               [added_toast (item_name (read_fails e)
                  ((db st)\<lparr>cart_items :=
                     upserted (cart_items (db st)) \<lparr>row_user_id = uid, row_product_id = p, row_qty = q\<rparr>\<rparr>) p)]\<rparr>)"
  using assms by (simp add: addToCart_def upsert_cart_items_accepted item_name_def)

lemma addToCart_remote_rejected:
  assumes "user st = Some uid" "write_fails e \<or> p \<notin> set (map prod_id (products (db st)))"
  shows "addToCart e st p q =
     Inr (st\<lparr>toasts := toasts st @ [error_toast ''Failed to add item to cart.''],
             console := console st @ [''Error adding to cart:'']\<rparr>)"
  using assms by (auto simp: addToCart_def upsert_cart_items_def)

lemma addToCart_remote_sets:
  assumes "user st = Some uid" "\<not> write_fails e" "p \<in> set (map prod_id (products (db st)))"
  shows "\<exists>st'. addToCart e st p q = Inr st'
           \<and> user st' = user st \<and> localStorage st' = localStorage st
           \<and> products (db st') = products (db st)
           \<and> remote_qty (db st') uid p = Some q
           \<and> (\<forall>u p'. u \<noteq> uid \<or> p' \<noteq> p \<longrightarrow> remote_qty (db st') u p' = remote_qty (db st) u p')
           \<and> (remote_qty (db st) uid p = None \<longrightarrow>
                cart_items (db st') = cart_items (db st) @
                  [\<lparr>row_user_id = uid, row_product_id = p, row_qty = q\<rparr>])
           \<and> (remote_qty (db st) uid p \<noteq> None \<longrightarrow>
                length (cart_items (db st')) = length (cart_items (db st)))"
proof -
  let ?d = "(db st)\<lparr>cart_items :=
      upserted (cart_items (db st)) \<lparr>row_user_id = uid, row_product_id = p, row_qty = q\<rparr>\<rparr>"
  have new: "cart_items ?d = cart_items (db st) @ [\<lparr>row_user_id = uid, row_product_id = p, row_qty = q\<rparr>]"
    if "remote_qty (db st) uid p = None"
    using that by (simp add: remote_qty_none upserted_new)
  have old: "length (cart_items ?d) = length (cart_items (db st))"
    if "remote_qty (db st) uid p \<noteq> None"
    using that by (auto simp: remote_qty_none upserted_existing)
  have same: "remote_qty ?d uid p = Some q"
    by (rule remote_qty_upserted_same)
  have other: "\<forall>u p'. u \<noteq> uid \<or> p' \<noteq> p \<longrightarrow> remote_qty ?d u p' = remote_qty (db st) u p'"
    by (simp add: remote_qty_upserted_other)
  from assms have "addToCart e st p q =
     Inr (st\<lparr>db := ?d, toasts := toasts st @ [added_toast (item_name (read_fails e) ?d p)]\<rparr>)"
    by (rule addToCart_remote_accepted)
  with new old same other show ?thesis
    by simp
qed

lemma addToCart_remote_returns:
  assumes "user st = Some uid"
  shows "\<exists>st'. addToCart e st p q = Inr st'
           \<and> user st' = user st \<and> localStorage st' = localStorage st \<and> items st' = items st
           \<and> (write_fails e \<longrightarrow> db st' = db st)"
proof (cases "write_fails e \<or> p \<notin> set (map prod_id (products (db st)))")
  case True
  with assms show ?thesis by (simp add: addToCart_remote_rejected)
next
  case False
  with assms show ?thesis by (simp add: addToCart_remote_accepted)
qed

subsection \<open>The loop of the reconciliation\<close>

lemma add_each_returns:
  assumes "user st = Some uid"
  shows "\<exists>st'. add_each envs k ls st = Inr st'
           \<and> user st' = user st \<and> localStorage st' = localStorage st \<and> items st' = items st
           \<and> ((\<forall>j<length ls. write_fails (envs (k + j))) \<longrightarrow> db st' = db st)"
  using assms
proof (induction ls arbitrary: st k)
  case Nil
  then show ?case by simp
next
  case (Cons l ls)
  from addToCart_remote_returns [OF Cons.prems, of "envs k" "product_id l" "qty l"]
  obtain st1 where st1: "addToCart (envs k) st (product_id l) (qty l) = Inr st1"
    "user st1 = user st" "localStorage st1 = localStorage st" "items st1 = items st"
    "write_fails (envs k) \<longrightarrow> db st1 = db st"
    by blast
  with Cons.prems have "user st1 = Some uid" by simp
  from Cons.IH [OF this, of "Suc k"]
  obtain st' where st': "add_each envs (Suc k) ls st1 = Inr st'"
    "user st' = user st1" "localStorage st' = localStorage st1" "items st' = items st1"
    "(\<forall>j<length ls. write_fails (envs (Suc k + j))) \<longrightarrow> db st' = db st1"
    by blast
  have "db st' = db st" if all: "\<forall>j<length (l # ls). write_fails (envs (k + j))"
  proof -
    from all have "write_fails (envs (k + 0))" by (metis length_greater_0_conv list.distinct(1))
    moreover have "\<forall>j<length ls. write_fails (envs (Suc k + j))"
    proof (intro allI impI)
      fix j assume "j < length ls"
      then have "Suc j < length (l # ls)" by simp
      with all have "write_fails (envs (k + Suc j))" by blast
      then show "write_fails (envs (Suc k + j))" by simp
    qed
    ultimately show ?thesis using st1(5) st'(5) by simp
  qed
  with st1 st' show ?case by simp
qed

lemma add_each_sets:
  assumes "user st = Some uid" and "distinct (map product_id ls)"
    and "\<forall>j<length ls. \<not> write_fails (envs (k + j))"
    and "\<forall>l\<in>set ls. product_id l \<in> set (map prod_id (products (db st)))"
  shows "\<exists>st'. add_each envs k ls st = Inr st'
           \<and> (\<forall>l\<in>set ls. remote_qty (db st') uid (product_id l) = Some (qty l))
           \<and> (\<forall>u p. u \<noteq> uid \<or> p \<notin> set (map product_id ls) \<longrightarrow>
                 remote_qty (db st') u p = remote_qty (db st) u p)"
  using assms
proof (induction ls arbitrary: st k)
  case Nil
  then show ?case by simp
next
  case (Cons l ls)
  from Cons.prems(3) have ok: "\<not> write_fails (envs k)"
    by (metis add.right_neutral length_greater_0_conv list.distinct(1))
  from Cons.prems(4) have known: "product_id l \<in> set (map prod_id (products (db st)))"
    by simp
  from addToCart_remote_sets [OF Cons.prems(1) ok known, of "qty l"]
  obtain st1 where st1: "addToCart (envs k) st (product_id l) (qty l) = Inr st1"
    "user st1 = user st" "products (db st1) = products (db st)"
    "remote_qty (db st1) uid (product_id l) = Some (qty l)"
    "\<forall>u p'. u \<noteq> uid \<or> p' \<noteq> product_id l \<longrightarrow> remote_qty (db st1) u p' = remote_qty (db st) u p'"
    by blast
  have u1: "user st1 = Some uid" using st1(2) Cons.prems(1) by simp
  have d1: "distinct (map product_id ls)" using Cons.prems(2) by simp
  have w1: "\<forall>j<length ls. \<not> write_fails (envs (Suc k + j))"
  proof (intro allI impI)
    fix j assume "j < length ls"
    then have "Suc j < length (l # ls)" by simp
    with Cons.prems(3) have "\<not> write_fails (envs (k + Suc j))" by blast
    then show "\<not> write_fails (envs (Suc k + j))" by simp
  qed
  have k1: "\<forall>x\<in>set ls. product_id x \<in> set (map prod_id (products (db st1)))"
    using Cons.prems(4) st1(3) by simp
  from Cons.IH [OF u1 d1 w1 k1]
  obtain st' where st': "add_each envs (Suc k) ls st1 = Inr st'"
    "\<forall>x\<in>set ls. remote_qty (db st') uid (product_id x) = Some (qty x)"
    "\<forall>u p. u \<noteq> uid \<or> p \<notin> set (map product_id ls) \<longrightarrow>
        remote_qty (db st') u p = remote_qty (db st1) u p"
    by blast
  have fresh: "product_id l \<notin> set (map product_id ls)"
    using Cons.prems(2) by simp
  have run: "add_each envs k (l # ls) st = Inr st'"
    using st1(1) st'(1) by simp
  have head: "remote_qty (db st') uid (product_id l) = Some (qty l)"
    using st'(3) fresh st1(4) by simp
  have others: "remote_qty (db st') u p = remote_qty (db st) u p"
    if "u \<noteq> uid \<or> p \<notin> set (map product_id (l # ls))" for u p
  proof -
    from that have a: "u \<noteq> uid \<or> p \<notin> set (map product_id ls)" and b: "u \<noteq> uid \<or> p \<noteq> product_id l"
      by auto
    from st'(3) a have "remote_qty (db st') u p = remote_qty (db st1) u p" by blast
    also from st1(5) b have "\<dots> = remote_qty (db st) u p" by blast
    finally show ?thesis .
  qed
  from run head st'(2) others show ?case
    by (intro exI [of _ st']) simp
qed

subsection \<open>The order identifier\<close>

lemma nat_text_digits: "set (nat_text n) \<subseteq> set digit_chars"
proof (induction n rule: nat_text.induct)
  case (1 n)
  have "length digit_chars = 10"
    by (simp add: digit_chars_def)
  then have d: "digit_chars ! m \<in> set digit_chars" if "m < 10" for m
    using that nth_mem [of m digit_chars] by simp
  show ?case
  proof (cases "n < 10")
    case True
    then show ?thesis
      by (subst nat_text.simps) (simp add: d)
  next
    case False
    with 1 have "set (nat_text (n div 10)) \<subseteq> set digit_chars" by simp
    moreover have "digit_chars ! (n mod 10) \<in> set digit_chars" by (simp add: d)
    ultimately show ?thesis
      using False by (subst nat_text.simps) simp
  qed
qed

lemma length_cycle: "length (concat (replicate k fill)) = k * length fill"
  by (induction k) simp_all

lemma length_lpad: "fill \<noteq> [] \<Longrightarrow> length (lpad s n fill) = n"
proof -
  assume "fill \<noteq> []"
  then have "1 \<le> length fill" by (cases fill) simp_all
  then have "n - length s \<le> (n - length s) * length fill" by simp
  then have pad: "length (take (n - length s) (concat (replicate (n - length s) fill))) = n - length s"
    by (simp add: length_cycle)
  show ?thesis
  proof (cases "n \<le> length s")
    case True
    then show ?thesis by (simp add: lpad_def)
  next
    case False
    with pad show ?thesis by (simp add: lpad_def del: length_take)
  qed
qed

lemma set_lpad: "set (lpad s n fill) \<subseteq> set s \<union> set fill"
proof -
  have "set (take m (concat (replicate m fill))) \<subseteq> set fill" for m
    using set_take_subset [of m "concat (replicate m fill)"] by auto
  moreover have "set (take n s) \<subseteq> set s"
    by (rule set_take_subset)
  ultimately show ?thesis
    by (auto simp: lpad_def)
qed

lemma length_new_id: "length (new_id now_ms r) = 12"
  by (simp add: new_id_def right_text_def length_lpad)

lemma new_id_digits:
  assumes "0 \<le> now_ms"
  shows "set (new_id now_ms r) \<subseteq> set digit_chars"
proof -
  have zero: "set ''0'' \<subseteq> set digit_chars"
    by (simp add: digit_chars_def)
  from assms have "set (bigint_text now_ms) \<subseteq> set digit_chars"
    by (simp add: bigint_text_def nat_text_digits)
  with zero have a: "set (lpad (bigint_text now_ms) 10 ''0'') \<subseteq> set digit_chars"
    using set_lpad [of "bigint_text now_ms" 10 "''0''"] by blast
  from zero have b: "set (lpad (nat_text r) 2 ''0'') \<subseteq> set digit_chars"
    using set_lpad [of "nat_text r" 2 "''0''"] nat_text_digits [of r] by blast
  have "set (new_id now_ms r)
          \<subseteq> set (lpad (bigint_text now_ms) 10 ''0'' @ lpad (nat_text r) 2 ''0'')"
    unfolding new_id_def right_text_def by (rule set_drop_subset)
  with a b show ?thesis by auto
qed

lemma first_free_now:
  "\<not> exists_check orders (new_id now_ms (draws k)) \<Longrightarrow>
   first_free orders now_ms draws k (new_id now_ms (draws k))"
  unfolding first_free_def by (intro exI [of _ k]) auto

lemma first_free_later:
  assumes "exists_check orders (new_id now_ms (draws k))"
    and "first_free orders now_ms draws (Suc k) oid"
  shows "first_free orders now_ms draws k oid"
proof -
  from assms(2) obtain n where n: "Suc k \<le> n" "oid = new_id now_ms (draws n)"
    "\<not> exists_check orders oid"
    "\<forall>j. Suc k \<le> j \<and> j < n \<longrightarrow> exists_check orders (new_id now_ms (draws j))"
    unfolding first_free_def by blast
  have "exists_check orders (new_id now_ms (draws j))" if "k \<le> j \<and> j < n" for j
  proof (cases "j = k")
    case True
    with assms(1) show ?thesis by simp
  next
    case False
    with that have "Suc k \<le> j \<and> j < n" by simp
    with n(4) show ?thesis by blast
  qed
  with n(1-3) show ?thesis
    unfolding first_free_def by (intro exI [of _ n]) auto
qed

lemma generate_order_id_from_first_free:
  assumes "generate_order_id_from orders now_ms draws k = Some oid"
  shows "first_free orders now_ms draws k oid"
proof (rule generate_order_id_from.raw_induct [where P = first_free, OF _ assms])
  fix loop :: "orders_row list \<Rightarrow> int \<Rightarrow> (nat \<Rightarrow> nat) \<Rightarrow> nat \<Rightarrow> string option"
  fix os t ds i y
  assume IH: "\<And>a b c d z. loop a b c d = Some z \<Longrightarrow> first_free a b c d z"
    and step: "(if exists_check os (new_id t (ds i)) then loop os t ds (Suc i)
                else Some (new_id t (ds i))) = Some y"
  show "first_free os t ds i y"
  proof (cases "exists_check os (new_id t (ds i))")
    case False
    with step have "y = new_id t (ds i)" by simp
    with False show ?thesis by (simp add: first_free_now)
  next
    case True
    with step have "loop os t ds (Suc i) = Some y" by simp
    then have "first_free os t ds (Suc i) y" by (rule IH)
    with True show ?thesis by (rule first_free_later)
  qed
qed

lemma generate_order_id_from_returns:
  "\<not> exists_check orders (new_id now_ms (draws (k + d))) \<Longrightarrow>
   \<exists>oid. generate_order_id_from orders now_ms draws k = Some oid"
proof (induction d arbitrary: k)
  case 0
  then show ?case
    by (subst generate_order_id_from.simps) simp
next
  case (Suc d)
  then have "\<not> exists_check orders (new_id now_ms (draws (Suc k + d)))" by simp
  from Suc.IH [OF this] obtain oid where "generate_order_id_from orders now_ms draws (Suc k) = Some oid"
    by blast
  then show ?case
    by (subst generate_order_id_from.simps) simp
qed

lemma exists_check_iff: "exists_check orders i \<longleftrightarrow> i \<in> set (map order_id orders)"
  by (auto simp: exists_check_def list_ex_iff)

section \<open>The claims\<close>

text \<open>
  C6. On the anonymous path every cart mutation keeps the product ids of the cart
  distinct: from a state without a signed-in user, whose stored cart is readable and has
  at most one line per product, \<open>addToCart\<close>, \<open>updateQuantity\<close>, \<open>removeFromCart\<close> and
  \<open>clearCart\<close> each return a state with at most one line per product. An add of a
  product that has a line and exists in the catalogue keeps the number of lines and adds
  the quantity to that line; the sum is the exact one when the two quantities and their
  sum are integers of at most \<open>2^53\<close> in absolute value, where the addition of doubles does
  not round.
\<close>

theorem anonymous_mutations_keep_products_unique:
  assumes "user st = None" and "localStorage st \<noteq> Some Not_JSON" and "unique_products st"
  shows "(case addToCart e st p q of Inl err \<Rightarrow> False | Inr st' \<Rightarrow> unique_products st')
       \<and> (case updateQuantity e st p q of Inl err \<Rightarrow> False | Inr st' \<Rightarrow> unique_products st')
       \<and> (case removeFromCart e st p of Inl err \<Rightarrow> False | Inr st' \<Rightarrow> unique_products st')
       \<and> (case clearCart e st of Inl err \<Rightarrow> False | Inr st' \<Rightarrow> unique_products st')
       \<and> (line_qty (local_lines st) p = Some q0 \<and> select_product (read_fails e) (db st) p = Some product
            \<and> exact_integer q0 \<and> exact_integer q \<and> exact_integer (q0 + q) \<longrightarrow>
            (case addToCart e st p q of Inl err \<Rightarrow> False
             | Inr st' \<Rightarrow> length (local_lines st') = length (local_lines st)
                         \<and> line_qty (local_lines st') p = Some (q0 + q)))"
proof (intro conjI impI)
  from unique_after_add [OF assms, of e p q]
  show "case addToCart e st p q of Inl err \<Rightarrow> False | Inr st' \<Rightarrow> unique_products st'"
    by auto
next
  have rm: "case removeFromCart e st p of Inl err \<Rightarrow> False | Inr st' \<Rightarrow> unique_products st'"
    using assms by (simp add: removeFromCart_anonymous unique_products_def distinct_map_filter)
  then show "case removeFromCart e st p of Inl err \<Rightarrow> False | Inr st' \<Rightarrow> unique_products st'" .
  show "case updateQuantity e st p q of Inl err \<Rightarrow> False | Inr st' \<Rightarrow> unique_products st'"
  proof (cases "q \<le> 0")
    case True
    with rm show ?thesis by (simp add: updateQuantity_def)
  next
    case False
    with assms show ?thesis
      by (simp add: updateQuantity_anonymous unique_products_def product_ids_set_qty del: map_map)
  qed
next
  from assms(1) show "case clearCart e st of Inl err \<Rightarrow> False | Inr st' \<Rightarrow> unique_products st'"
    by (simp add: clearCart_def unique_products_def local_lines_def)
next
  assume h: "line_qty (local_lines st) p = Some q0 \<and> select_product (read_fails e) (db st) p = Some product
            \<and> exact_integer q0 \<and> exact_integer q \<and> exact_integer (q0 + q)"
  then have mem: "p \<in> set (map product_id (local_lines st))"
    by (blast intro: line_qty_present)
  from h have "line_qty (bump q (local_lines st)
      (nat (findIndex (\<lambda>item. product_id item = p) (local_lines st)))) p = Some (q0 + q)"
    by (simp add: line_qty_bump js_add_exact)
  with assms h mem show "case addToCart e st p q of Inl err \<Rightarrow> False
             | Inr st' \<Rightarrow> length (local_lines st') = length (local_lines st)
                         \<and> line_qty (local_lines st') p = Some (q0 + q)"
    by (simp add: addToCart_anonymous_existing length_bump)
qed

theorem anonymous_mutations_keep_products_unique_witness:
  "user (anonymous (Some (JSON_of [line ''A'' 2]))) = None
   \<and> localStorage (anonymous (Some (JSON_of [line ''A'' 2]))) \<noteq> Some Not_JSON
   \<and> unique_products (anonymous (Some (JSON_of [line ''A'' 2])))
   \<and> line_qty (local_lines (anonymous (Some (JSON_of [line ''A'' 2])))) ''A'' = Some 2
   \<and> select_product (read_fails calm) (db (anonymous (Some (JSON_of [line ''A'' 2])))) ''A'' = Some phone
   \<and> exact_integer 2 \<and> exact_integer 3 \<and> exact_integer (2 + 3)
   \<and> (case addToCart calm (anonymous (Some (JSON_of [line ''A'' 2]))) ''A'' 3 of
        Inl err \<Rightarrow> False
      | Inr st' \<Rightarrow> unique_products st' \<and> length (local_lines st') = 1
                  \<and> line_qty (local_lines st') ''A'' = Some 5)
   \<and> (case updateQuantity calm (anonymous (Some (JSON_of [line ''A'' 2]))) ''A'' 3 of
        Inl err \<Rightarrow> False | Inr st' \<Rightarrow> unique_products st')
   \<and> (case removeFromCart calm (anonymous (Some (JSON_of [line ''A'' 2]))) ''A'' of
        Inl err \<Rightarrow> False | Inr st' \<Rightarrow> unique_products st')
   \<and> (case clearCart calm (anonymous (Some (JSON_of [line ''A'' 2]))) of
        Inl err \<Rightarrow> False | Inr st' \<Rightarrow> unique_products st')"
proof -
  let ?st = "anonymous (Some (JSON_of [line ''A'' 2]))"
  have h1: "user ?st = None"
    by (simp add: anonymous_def)
  have h2: "localStorage ?st \<noteq> Some Not_JSON"
    by (simp add: anonymous_def)
  have h3: "unique_products ?st"
    by (simp add: unique_products_def local_lines_def anonymous_def)
  have h4: "line_qty (local_lines ?st) ''A'' = Some 2"
    by (simp add: line_qty_def local_lines_def anonymous_def line_def)
  have h5: "select_product (read_fails calm) (db ?st) ''A'' = Some phone"
    by (simp add: select_product_def sample_defs)
  have h6: "exact_integer 2" "exact_integer 3" "exact_integer (2 + 3)"
    by (simp_all add: exact_integer_def)
  from anonymous_mutations_keep_products_unique [OF h1 h2 h3, of calm "''A''" 3 2 phone] h1 h2 h3 h4 h5 h6
  show ?thesis
    by (simp add: local_lines_def anonymous_def split: sum.splits)
qed

text \<open>
  C8. \<open>updateQuantity(p, newQty)\<close> with \<open>newQty \<le> 0\<close> is \<open>removeFromCart(p)\<close>: the two
  calls return the same state, signed in or not. With \<open>newQty \<ge> 1\<close> the quantity of the
  existing line of \<open>p\<close> becomes \<open>newQty\<close>, whatever it was: in the stored cart on the
  anonymous path, and in the remote cart on the authenticated path when the backend
  accepts the update.
\<close>

theorem updateQuantity_removes_or_sets:
  "(q \<le> 0 \<longrightarrow> updateQuantity e st p q = removeFromCart e st p)
 \<and> (1 \<le> q \<and> user st = None \<and> localStorage st \<noteq> Some Not_JSON
      \<and> line_qty (local_lines st) p = Some q0 \<longrightarrow>
      (case updateQuantity e st p q of
         Inl err \<Rightarrow> False
       | Inr st' \<Rightarrow> line_qty (local_lines st') p = Some q \<and> items st' = local_lines st'))
 \<and> (1 \<le> q \<and> user st = Some uid \<and> \<not> write_fails e \<and> remote_qty (db st) uid p = Some q0 \<longrightarrow>
      (case updateQuantity e st p q of
         Inl err \<Rightarrow> False
       | Inr st' \<Rightarrow> remote_qty (db st') uid p = Some q))"
proof (intro conjI impI)
  assume "q \<le> 0"
  then show "updateQuantity e st p q = removeFromCart e st p"
    by (simp add: updateQuantity_def)
next
  assume "1 \<le> q \<and> user st = None \<and> localStorage st \<noteq> Some Not_JSON
      \<and> line_qty (local_lines st) p = Some q0"
  then show "case updateQuantity e st p q of
         Inl err \<Rightarrow> False
       | Inr st' \<Rightarrow> line_qty (local_lines st') p = Some q \<and> items st' = local_lines st'"
    by (simp add: updateQuantity_anonymous line_qty_map_set)
next
  assume h: "1 \<le> q \<and> user st = Some uid \<and> \<not> write_fails e \<and> remote_qty (db st) uid p = Some q0"
  then obtain r where
    "find (\<lambda>x. row_user_id x = uid \<and> row_product_id x = p) (cart_items (db st)) = Some r"
    by (auto simp: remote_qty_def)
  with h show "case updateQuantity e st p q of
         Inl err \<Rightarrow> False
       | Inr st' \<Rightarrow> remote_qty (db st') uid p = Some q"
    by (simp add: updateQuantity_remote remote_qty_def find_map_row_qty)
qed

theorem updateQuantity_removes_or_sets_witness:
  "updateQuantity calm (anonymous (Some (JSON_of [line ''A'' 2, line ''B'' 1]))) ''A'' 0
     = removeFromCart calm (anonymous (Some (JSON_of [line ''A'' 2, line ''B'' 1]))) ''A''
   \<and> updateQuantity stormy (signed_in [row ''u1'' ''B'' 3] None) ''B'' (- 1)
     = removeFromCart stormy (signed_in [row ''u1'' ''B'' 3] None) ''B''
   \<and> line_qty (local_lines (anonymous (Some (JSON_of [line ''A'' 2, line ''B'' 1])))) ''A'' = Some 2
   \<and> (case updateQuantity calm (anonymous (Some (JSON_of [line ''A'' 2, line ''B'' 1]))) ''A'' 7 of
        Inl err \<Rightarrow> False
      | Inr st' \<Rightarrow> line_qty (local_lines st') ''A'' = Some 7 \<and> items st' = local_lines st')
   \<and> remote_qty (db (signed_in [row ''u1'' ''B'' 3] None)) ''u1'' ''B'' = Some 3
   \<and> (case updateQuantity calm (signed_in [row ''u1'' ''B'' 3] None) ''B'' 7 of
        Inl err \<Rightarrow> False
      | Inr st' \<Rightarrow> remote_qty (db st') ''u1'' ''B'' = Some 7)"
proof -
  let ?a = "anonymous (Some (JSON_of [line ''A'' 2, line ''B'' 1]))"
  let ?s = "signed_in [row ''u1'' ''B'' 3] None"
  have a: "user ?a = None" "localStorage ?a \<noteq> Some Not_JSON"
    "line_qty (local_lines ?a) ''A'' = Some 2"
    by (simp_all add: anonymous_def local_lines_def line_qty_def line_def)
  have s: "user ?s = Some ''u1''" "\<not> write_fails calm" "remote_qty (db ?s) ''u1'' ''B'' = Some 3"
    by (simp_all add: signed_in_def calm_def remote_qty_def shop_def row_def)
  from updateQuantity_removes_or_sets [where q = 0 and e = calm and st = ?a and p = "''A''"]
    updateQuantity_removes_or_sets [where q = "- 1" and e = stormy and st = ?s and p = "''B''"]
    updateQuantity_removes_or_sets [where q = 7 and e = calm and st = ?a and p = "''A''" and ?q0.0 = 2]
    updateQuantity_removes_or_sets [where q = 7 and e = calm and st = ?s and p = "''B''"
      and uid = "''u1''" and ?q0.0 = 3]
    a s
  show ?thesis by simp
qed

text \<open>
  C10. On the anonymous path, \<open>updateQuantity(p, newQty)\<close> with \<open>newQty \<ge> 1\<close> for a
  product that has no line in the stored cart returns normally and changes nothing: the
  stored lines are the lines of before (no line for \<open>p\<close>, no line modified), the rendered
  lines are these lines, and the backend, the notifications and the log are untouched.
\<close>

theorem updateQuantity_absent_line_unchanged:
  assumes "user st = None" and "localStorage st \<noteq> Some Not_JSON"
    and "p \<notin> set (map product_id (local_lines st))" and "1 \<le> q"
  shows "case updateQuantity e st p q of
           Inl err \<Rightarrow> False
         | Inr st' \<Rightarrow> local_lines st' = local_lines st \<and> items st' = local_lines st
                     \<and> line_qty (local_lines st') p = None
                     \<and> user st' = None \<and> db st' = db st
                     \<and> toasts st' = toasts st \<and> console st' = console st"
  using assms
  by (simp add: updateQuantity_anonymous map_set_qty_absent line_qty_absent del: set_map)

theorem updateQuantity_absent_line_unchanged_witness:
  "user (anonymous (Some (JSON_of [line ''A'' 2]))) = None
   \<and> localStorage (anonymous (Some (JSON_of [line ''A'' 2]))) \<noteq> Some Not_JSON
   \<and> ''B'' \<notin> set (map product_id (local_lines (anonymous (Some (JSON_of [line ''A'' 2])))))
   \<and> updateQuantity calm (anonymous (Some (JSON_of [line ''A'' 2]))) ''B'' 4
       = Inr ((anonymous (Some (JSON_of [line ''A'' 2])))\<lparr>items := [line ''A'' 2]\<rparr>)
   \<and> (case updateQuantity calm (anonymous (Some (JSON_of [line ''A'' 2]))) ''B'' 4 of
           Inl err \<Rightarrow> False
         | Inr st' \<Rightarrow> local_lines st' = [line ''A'' 2] \<and> items st' = [line ''A'' 2]
                     \<and> line_qty (local_lines st') ''B'' = None)"
proof -
  let ?a = "anonymous (Some (JSON_of [line ''A'' 2]))"
  have a: "user ?a = None" "localStorage ?a \<noteq> Some Not_JSON"
    "''B'' \<notin> set (map product_id (local_lines ?a))" "local_lines ?a = [line ''A'' 2]"
    by (simp_all add: anonymous_def local_lines_def line_def)
  have run: "updateQuantity calm ?a ''B'' 4 = Inr (?a\<lparr>items := [line ''A'' 2]\<rparr>)"
    by (simp add: updateQuantity_def read_local_def JSON_parse_def JSON_stringify_def
        anonymous_def line_def Let_def)
  from updateQuantity_absent_line_unchanged [OF a(1) a(2) a(3), of 4 calm] a run
  show ?thesis by (simp split: sum.splits)
qed

text \<open>
  C7. On the anonymous path, from a readable stored cart with no line for \<open>p\<close>, and with
  \<open>p\<close> found in the catalogue at both calls, \<open>addToCart(p, q1)\<close> followed by
  \<open>addToCart(p, q2)\<close> leaves the lines of before followed by one new line for \<open>p\<close>, of
  quantity \<open>q1 + q2\<close>: exactly one line for \<open>p\<close>, never two. The quantities \<open>q1\<close>, \<open>q2\<close>
  and \<open>q1 + q2\<close> are integers of at most \<open>2^53\<close> in absolute value, where the addition of
  doubles does not round.
\<close>

theorem addToCart_twice_one_line:
  assumes "user st = None" and "localStorage st \<noteq> Some Not_JSON"
    and "p \<notin> set (map product_id (local_lines st))"
    and "select_product (read_fails e1) (db st) p = Some product"
    and "select_product (read_fails e2) (db st) p = Some product'"
    and "exact_integer q1" and "exact_integer q2" and "exact_integer (q1 + q2)"
  shows "case addToCart e1 st p q1 of
           Inl err \<Rightarrow> False
         | Inr st1 \<Rightarrow>
            (case addToCart e2 st1 p q2 of
               Inl err \<Rightarrow> False
             | Inr st2 \<Rightarrow>
                 local_lines st2 = local_lines st @
                   [\<lparr>id_line = random_id e1, product_id = p, title = prod_title product,
                     price = prod_price product, qty = q1 + q2, images = prod_images product\<rparr>]
                 \<and> items st2 = local_lines st2
                 \<and> length (filter (\<lambda>item. product_id item = p) (local_lines st2)) = 1
                 \<and> line_qty (local_lines st2) p = Some (q1 + q2))"
proof -
  let ?new = "\<lambda>q. \<lparr>id_line = random_id e1, product_id = p, title = prod_title product,
                     price = prod_price product, qty = q, images = prod_images product\<rparr>"
  let ?st1 = "st\<lparr>localStorage := Some (JSON_of (local_lines st @ [?new q1])),
             items := local_lines st @ [?new q1],
             toasts := toasts st @ [added_toast (prod_title product)]\<rparr>"
  have first: "addToCart e1 st p q1 = Inr ?st1"
    using assms(1-4) by (simp add: addToCart_anonymous_new)
  have absent: "\<forall>x\<in>set (local_lines st). product_id x \<noteq> p"
    using assms(3) by auto
  have idx: "findIndex (\<lambda>item. product_id item = p) (local_lines st @ [?new q1])
               = int (length (local_lines st))"
    using absent by (simp add: findIndex_snoc)
  have l1: "local_lines ?st1 = local_lines st @ [?new q1]"
    by (simp add: local_lines_def)
  have "addToCart e2 ?st1 p q2 =
     Inr (?st1\<lparr>localStorage := Some (JSON_of (bump q2 (local_lines ?st1)
                  (nat (findIndex (\<lambda>item. product_id item = p) (local_lines ?st1))))),
             items := bump q2 (local_lines ?st1)
                  (nat (findIndex (\<lambda>item. product_id item = p) (local_lines ?st1))),
             toasts := toasts ?st1 @ [added_toast (prod_title product')]\<rparr>)"
    by (rule addToCart_anonymous_existing) (use assms(1-5) l1 in simp_all)
  moreover have "bump q2 (local_lines ?st1)
                  (nat (findIndex (\<lambda>item. product_id item = p) (local_lines ?st1)))
                 = local_lines st @ [?new (q1 + q2)]"
    unfolding l1 idx using assms(8) by (simp add: bump_def js_add_exact)
  moreover have "filter (\<lambda>item. product_id item = p) (local_lines st) = []"
    using absent by (simp add: filter_empty_conv)
  moreover have "line_qty (local_lines st @ [?new (q1 + q2)]) p = Some (q1 + q2)"
    using absent by (simp add: line_qty_snoc)
  ultimately show ?thesis
    using first by simp
qed

theorem addToCart_twice_one_line_witness:
  "user (anonymous None) = None
   \<and> localStorage (anonymous None) \<noteq> Some Not_JSON
   \<and> ''A'' \<notin> set (map product_id (local_lines (anonymous None)))
   \<and> select_product (read_fails calm) (db (anonymous None)) ''A'' = Some phone
   \<and> exact_integer 2 \<and> exact_integer 3 \<and> exact_integer (2 + 3)
   \<and> (case addToCart calm (anonymous None) ''A'' 2 of
         Inl err \<Rightarrow> False
       | Inr st1 \<Rightarrow>
          (case addToCart calm st1 ''A'' 3 of
             Inl err \<Rightarrow> False
           | Inr st2 \<Rightarrow>
               local_lines st2 =
                 [\<lparr>id_line = ''0.8k3j2h1g5f'', product_id = ''A'', title = ''Phone'',
                   price = 100, qty = 5, images = []\<rparr>]
               \<and> items st2 = local_lines st2
               \<and> length (filter (\<lambda>item. product_id item = ''A'') (local_lines st2)) = 1
               \<and> line_qty (local_lines st2) ''A'' = Some 5))"
proof -
  have a: "user (anonymous None) = None" "localStorage (anonymous None) \<noteq> Some Not_JSON"
    "''A'' \<notin> set (map product_id (local_lines (anonymous None)))"
    "local_lines (anonymous None) = []"
    by (simp_all add: anonymous_def local_lines_def)
  have s: "select_product (read_fails calm) (db (anonymous None)) ''A'' = Some phone"
    by (simp add: select_product_def sample_defs)
  have v: "random_id calm = ''0.8k3j2h1g5f''" "prod_title phone = ''Phone''"
    "prod_price phone = 100" "prod_images phone = []"
    by (simp_all add: calm_def phone_def)
  have x: "exact_integer 2" "exact_integer 3" "exact_integer (2 + 3)"
    by (simp_all add: exact_integer_def)
  from addToCart_twice_one_line [OF a(1) a(2) a(3) s s x] a s v x
  show ?thesis by (simp cong: sum.case_cong)
qed

text \<open>
  C4. Every stored value of the key is of one of four kinds, and the load treats them in
  three ways. When the key is not set, or holds the empty text, the load returns
  normally with the state as it was: nothing is thrown and nothing is rendered anew, so
  that an empty list is rendered when the rendered list was empty before the load. When the value is a
  text, not empty, that is no JSON, it is not read as an empty cart: the \<open>SyntaxError\<close> of
  \<open>JSON.parse\<close> reaches the caller and nothing is rendered. When the value is the JSON
  text of a value, a list of lines or not, the load returns normally and renders that
  value.
\<close>

theorem loadLocalCart_by_stored_value:
  "(localStorage st = None \<or> localStorage st = Some Empty_text \<longrightarrow> loadLocalCart st = Inr st)
 \<and> ((localStorage s = None \<or> localStorage s = Some Empty_text) \<and> items s = ([] :: CartItem list) \<longrightarrow>
      (case loadLocalCart s of Inl err \<Rightarrow> False | Inr s' \<Rightarrow> items s' = []))
 \<and> (localStorage st = Some Not_JSON \<longrightarrow> loadLocalCart st = Inl SyntaxError)
 \<and> (localStorage st = Some (JSON_of v) \<longrightarrow> loadLocalCart st = Inr (st\<lparr>items := v\<rparr>))
 \<and> (localStorage st = None \<or> localStorage st = Some Empty_text
      \<or> localStorage st = Some Not_JSON \<or> (\<exists>w. localStorage st = Some (JSON_of w)))"
proof (intro conjI impI)
  assume "localStorage st = None \<or> localStorage st = Some Empty_text"
  then show "loadLocalCart st = Inr st"
    by (auto simp: loadLocalCart_def)
next
  assume "(localStorage s = None \<or> localStorage s = Some Empty_text) \<and> items s = []"
  then show "case loadLocalCart s of Inl err \<Rightarrow> False | Inr s' \<Rightarrow> items s' = []"
    by (auto simp: loadLocalCart_def)
next
  assume "localStorage st = Some Not_JSON"
  then show "loadLocalCart st = Inl SyntaxError"
    by (simp add: loadLocalCart_def JSON_parse_def)
next
  assume "localStorage st = Some (JSON_of v)"
  then show "loadLocalCart st = Inr (st\<lparr>items := v\<rparr>)"
    by (simp add: loadLocalCart_def JSON_parse_def)
next
  show "localStorage st = None \<or> localStorage st = Some Empty_text
      \<or> localStorage st = Some Not_JSON \<or> (\<exists>w. localStorage st = Some (JSON_of w))"
  proof (cases "localStorage st")
    case None
    then show ?thesis by simp
  next
    case (Some t)
    then show ?thesis by (cases t) simp_all
  qed
qed

theorem loadLocalCart_by_stored_value_witness:
  "localStorage (anonymous None) = None \<and> items (anonymous None) = []
 \<and> loadLocalCart (anonymous None) = Inr (anonymous None)
 \<and> (case loadLocalCart (anonymous None) of Inl err \<Rightarrow> False | Inr s' \<Rightarrow> items s' = [])
 \<and> loadLocalCart (anonymous (Some Empty_text)) = Inr (anonymous (Some Empty_text))
 \<and> loadLocalCart (anonymous (Some Not_JSON)) = Inl SyntaxError
 \<and> loadLocalCart (anonymous (Some (JSON_of [line ''A'' 2])))
      = Inr ((anonymous (Some (JSON_of [line ''A'' 2])))\<lparr>items := [line ''A'' 2]\<rparr>)
 \<and> loadLocalCart \<lparr>user = None, items = JArray [], localStorage = Some (JSON_of JNull),
                   db = shop [], toasts = [], console = []\<rparr>
      = Inr \<lparr>user = None, items = JNull, localStorage = Some (JSON_of JNull),
             db = shop [], toasts = [], console = []\<rparr>
 \<and> loadLocalCart \<lparr>user = None, items = JArray [], localStorage = Some (JSON_of (JObject [])),
                   db = shop [], toasts = [], console = []\<rparr>
      = Inr \<lparr>user = None, items = JObject [], localStorage = Some (JSON_of (JObject [])),
             db = shop [], toasts = [], console = []\<rparr>"
  using loadLocalCart_by_stored_value [where st = "anonymous None" and s = "anonymous None"]
    loadLocalCart_by_stored_value [where st = "anonymous (Some Empty_text)"]
    loadLocalCart_by_stored_value [where st = "anonymous (Some Not_JSON)"]
    loadLocalCart_by_stored_value [where st = "anonymous (Some (JSON_of [line ''A'' 2]))"
      and v = "[line ''A'' 2]"]
    loadLocalCart_by_stored_value [where st = "\<lparr>user = None, items = JArray [],
      localStorage = Some (JSON_of JNull), db = shop [], toasts = [], console = []\<rparr>"
      and v = JNull]
    loadLocalCart_by_stored_value [where st = "\<lparr>user = None, items = JArray [],
      localStorage = Some (JSON_of (JObject [])), db = shop [], toasts = [], console = []\<rparr>"
      and v = "JObject []"]
  by (simp add: anonymous_def)

text \<open>
  The load of the specification reads a missing value and an unparsable one as an empty
  cart, renders an empty list and never throws. The load of the code does neither: with a
  stored text that is no JSON the call ends in the \<open>SyntaxError\<close>; and with the key not
  set, after a sign-out that leaves the line \<open>A:2\<close> of the remote cart rendered, the load
  returns with that line still rendered, not with an empty list.
\<close>

theorem loadLocalCart_not_an_empty_cart:
  "loadLocalCart
     \<lparr>user = None, items = [] :: CartItem list, localStorage = Some Not_JSON,
      db = shop [], toasts = [], console = []\<rparr>
   = Inl SyntaxError
 \<and> loadLocalCart
     \<lparr>user = None, items = [line ''A'' 2], localStorage = None,
      db = shop [row ''u1'' ''A'' 2], toasts = [], console = []\<rparr>
   = Inr \<lparr>user = None, items = [line ''A'' 2], localStorage = None,
          db = shop [row ''u1'' ''A'' 2], toasts = [], console = []\<rparr>"
  by (simp add: loadLocalCart_def JSON_parse_def)

text \<open>
  C5. When no product has the id, \<open>addToCart(product_id, qty)\<close> leaves the cart as it is
  on both paths, and no line is created. Signed in, the backend's error is logged and
  shown as a destructive notification, and the call returns normally. Anonymous, with a
  stored cart that is absent or readable, the call returns normally and silently: the
  state is the state of before, with no log entry and no notification.
\<close>

theorem addToCart_unknown_product:
  assumes "p \<notin> set (map prod_id (products (db st)))"
  shows "(user st = None \<and> localStorage st \<noteq> Some Not_JSON \<longrightarrow> addToCart e st p q = Inr st)
       \<and> (user st = Some uid \<longrightarrow>
            addToCart e st p q =
              Inr (st\<lparr>toasts := toasts st @ [error_toast ''Failed to add item to cart.''],
                      console := console st @ [''Error adding to cart:'']\<rparr>))"
proof (intro conjI impI)
  from assms have "filter (\<lambda>x. prod_id x = p) (products (db st)) = []"
    by (auto simp: filter_empty_conv)
  then have "select_product (read_fails e) (db st) p = None"
    by (simp add: select_product_def)
  moreover assume "user st = None \<and> localStorage st \<noteq> Some Not_JSON"
  ultimately show "addToCart e st p q = Inr st"
    by (simp add: addToCart_anonymous_no_product)
next
  assume "user st = Some uid"
  with assms show "addToCart e st p q =
              Inr (st\<lparr>toasts := toasts st @ [error_toast ''Failed to add item to cart.''],
                      console := console st @ [''Error adding to cart:'']\<rparr>)"
    by (simp add: addToCart_def upsert_cart_items_def)
qed

theorem addToCart_unknown_product_witness:
  "''Z'' \<notin> set (map prod_id (products (db (anonymous (Some (JSON_of [line ''A'' 2]))))))
   \<and> addToCart calm (anonymous (Some (JSON_of [line ''A'' 2]))) ''Z'' 1
       = Inr (anonymous (Some (JSON_of [line ''A'' 2])))
   \<and> ''Z'' \<notin> set (map prod_id (products (db (signed_in [row ''u1'' ''B'' 3] None))))
   \<and> addToCart calm (signed_in [row ''u1'' ''B'' 3] None) ''Z'' 1
       = Inr ((signed_in [row ''u1'' ''B'' 3] None)
               \<lparr>toasts := [error_toast ''Failed to add item to cart.''],
                console := [''Error adding to cart:'']\<rparr>)"
proof -
  let ?a = "anonymous (Some (JSON_of [line ''A'' 2]))"
  let ?s = "signed_in [row ''u1'' ''B'' 3] None"
  have a: "''Z'' \<notin> set (map prod_id (products (db ?a)))" "user ?a = None"
    "localStorage ?a \<noteq> Some Not_JSON"
    by (simp_all add: sample_defs)
  have s: "''Z'' \<notin> set (map prod_id (products (db ?s)))" "user ?s = Some ''u1''"
    "toasts ?s = []" "console ?s = []"
    by (simp_all add: sample_defs)
  from addToCart_unknown_product [OF a(1), where e = calm and q = 1]
    addToCart_unknown_product [OF s(1), where uid = "''u1''" and e = calm and q = 1] a s
  show ?thesis by simp
qed

text \<open>
  The failure that the specification has logged and notified on either path is silent
  on the anonymous one: adding the unknown product \<open>Z\<close> returns the state of before,
  whose notifications and log are empty.
\<close>

theorem addToCart_anonymous_unknown_product_silent:
  "addToCart calm
     \<lparr>user = None, items = [], localStorage = None, db = shop [], toasts = [], console = []\<rparr>
     ''Z'' 1
   = Inr \<lparr>user = None, items = [], localStorage = None, db = shop [], toasts = [], console = []\<rparr>"
  by (simp add: addToCart_def read_local_def select_product_def sample_defs)

text \<open>
  C2. Signed in, with the product in the catalogue and the backend accepting the write,
  \<open>addToCart(p, q)\<close> leaves the user's line for \<open>p\<close> with quantity exactly \<open>q\<close>, whatever
  the line held before: the upsert replaces, it does not add. Every other line, of this
  user or another, keeps its quantity. Without a prior line the row \<open>(user, p, q)\<close> is
  appended; with one, the number of rows stays.
\<close>

theorem addToCart_remote_sets_quantity:
  assumes "user st = Some uid" and "\<not> write_fails e"
    and "p \<in> set (map prod_id (products (db st)))"
  shows "case addToCart e st p q of
           Inl err \<Rightarrow> False
         | Inr st' \<Rightarrow>
             remote_qty (db st') uid p = Some q
           \<and> (\<forall>u p'. u \<noteq> uid \<or> p' \<noteq> p \<longrightarrow> remote_qty (db st') u p' = remote_qty (db st) u p')
           \<and> (remote_qty (db st) uid p = None \<longrightarrow>
                cart_items (db st') = cart_items (db st) @
                  [\<lparr>row_user_id = uid, row_product_id = p, row_qty = q\<rparr>])
           \<and> (remote_qty (db st) uid p \<noteq> None \<longrightarrow>
                length (cart_items (db st')) = length (cart_items (db st)))"
  using addToCart_remote_sets [OF assms, of q]
  by (elim exE conjE) (simp only: sum.case simp_thms)



theorem addToCart_remote_sets_quantity_witness:
  "user (signed_in [row ''u1'' ''B'' 3] None) = Some ''u1''
   \<and> \<not> write_fails calm
   \<and> ''B'' \<in> set (map prod_id (products (db (signed_in [row ''u1'' ''B'' 3] None))))
   \<and> remote_qty (db (signed_in [row ''u1'' ''B'' 3] None)) ''u1'' ''B'' = Some 3
   \<and> remote_qty (db (signed_in [row ''u1'' ''B'' 3] None)) ''u1'' ''A'' = None
   \<and> (case addToCart calm (signed_in [row ''u1'' ''B'' 3] None) ''B'' 1 of
         Inl err \<Rightarrow> False
       | Inr st' \<Rightarrow> remote_qty (db st') ''u1'' ''B'' = Some 1 \<and> length (cart_items (db st')) = 1)
   \<and> (case addToCart calm (signed_in [row ''u1'' ''B'' 3] None) ''A'' 2 of
         Inl err \<Rightarrow> False
       | Inr st' \<Rightarrow> remote_qty (db st') ''u1'' ''A'' = Some 2
                   \<and> remote_qty (db st') ''u1'' ''B'' = Some 3
                   \<and> cart_items (db st') = [row ''u1'' ''B'' 3, row ''u1'' ''A'' 2])"
proof -
  let ?s = "signed_in [row ''u1'' ''B'' 3] None"
  have h: "user ?s = Some ''u1''" "\<not> write_fails calm"
    "''B'' \<in> set (map prod_id (products (db ?s)))"
    "''A'' \<in> set (map prod_id (products (db ?s)))"
    by (simp_all add: sample_defs)
  have v: "remote_qty (db ?s) ''u1'' ''B'' = Some 3" "remote_qty (db ?s) ''u1'' ''A'' = None"
    "cart_items (db ?s) = [row ''u1'' ''B'' 3]"
    "\<lparr>row_user_id = ''u1'', row_product_id = ''A'', row_qty = 2\<rparr> = row ''u1'' ''A'' 2"
    by (simp_all add: remote_qty_def sample_defs)
  have b: "case addToCart calm ?s ''B'' 1 of
         Inl err \<Rightarrow> False
       | Inr st' \<Rightarrow> remote_qty (db st') ''u1'' ''B'' = Some 1 \<and> length (cart_items (db st')) = 1"
    using addToCart_remote_sets_quantity [OF h(1) h(2) h(3), of 1] v
    by (cases "addToCart calm ?s ''B'' 1") simp_all
  have a: "case addToCart calm ?s ''A'' 2 of
         Inl err \<Rightarrow> False
       | Inr st' \<Rightarrow> remote_qty (db st') ''u1'' ''A'' = Some 2
                   \<and> remote_qty (db st') ''u1'' ''B'' = Some 3
                   \<and> cart_items (db st') = [row ''u1'' ''B'' 3, row ''u1'' ''A'' 2]"
  proof (cases "addToCart calm ?s ''A'' 2")
    case (Inl err)
    with addToCart_remote_sets_quantity [OF h(1) h(2) h(4), of 2] show ?thesis by simp
  next
    case (Inr st')
    with addToCart_remote_sets_quantity [OF h(1) h(2) h(4), of 2]
    have 1: "remote_qty (db st') ''u1'' ''A'' = Some 2"
      and 2: "\<forall>u p'. u \<noteq> ''u1'' \<or> p' \<noteq> ''A'' \<longrightarrow> remote_qty (db st') u p' = remote_qty (db ?s) u p'"
      and 3: "remote_qty (db ?s) ''u1'' ''A'' = None \<longrightarrow>
                cart_items (db st') = cart_items (db ?s) @
                  [\<lparr>row_user_id = ''u1'', row_product_id = ''A'', row_qty = 2\<rparr>]"
      by simp_all
    from 2 have "remote_qty (db st') ''u1'' ''B'' = remote_qty (db ?s) ''u1'' ''B''"
      by simp
    with 1 3 v Inr show ?thesis by simp
  qed
  from h v a b show ?thesis by simp
qed

text \<open>
  C3. A reconciliation for a signed-in user over a stored cart returns normally with the
  storage key removed, whatever the backend answers to each merge: no error is raised
  and no line stays behind. A line whose merge the backend refuses is dropped: when
  every merge is refused, the local cart is empty and the remote cart is as before.
\<close>

theorem syncLocalCart_clears_local:
  assumes "user st = Some uid" and "localStorage st = Some (JSON_of ls)"
  shows "case syncLocalCart envs st of
           Inl err \<Rightarrow> False
         | Inr st' \<Rightarrow> localStorage st' = None \<and> local_lines st' = []
                     \<and> ((\<forall>k<length ls. write_fails (envs k)) \<longrightarrow> db st' = db st)"
proof -
  from add_each_returns [OF assms(1), of envs 0 ls]
  obtain st1 where "add_each envs 0 ls st = Inr st1"
    and "(\<forall>j<length ls. write_fails (envs (0 + j))) \<longrightarrow> db st1 = db st"
    by blast
  with assms show ?thesis
    by (simp add: syncLocalCart_def JSON_parse_def local_lines_def)
qed

theorem syncLocalCart_clears_local_witness:
  "user (signed_in [row ''u1'' ''B'' 3] (Some (JSON_of [line ''A'' 2, line ''B'' 1]))) = Some ''u1''
   \<and> localStorage (signed_in [row ''u1'' ''B'' 3] (Some (JSON_of [line ''A'' 2, line ''B'' 1])))
       = Some (JSON_of [line ''A'' 2, line ''B'' 1])
   \<and> write_fails (stormy_first 0) \<and> \<not> write_fails (stormy_first 1)
   \<and> syncLocalCart stormy_first
        (signed_in [row ''u1'' ''B'' 3] (Some (JSON_of [line ''A'' 2, line ''B'' 1])))
       = Inr ((signed_in [row ''u1'' ''B'' 1] None)
               \<lparr>toasts := [error_toast ''Failed to add item to cart.'', added_toast ''Laptop''],
                console := [''Error adding to cart:'']\<rparr>)
   \<and> (case syncLocalCart stormy_first
        (signed_in [row ''u1'' ''B'' 3] (Some (JSON_of [line ''A'' 2, line ''B'' 1]))) of
         Inl err \<Rightarrow> False
       | Inr st' \<Rightarrow> localStorage st' = None \<and> local_lines st' = [])
   \<and> (case syncLocalCart (always stormy)
        (signed_in [row ''u1'' ''B'' 3] (Some (JSON_of [line ''A'' 2, line ''B'' 1]))) of
         Inl err \<Rightarrow> False
       | Inr st' \<Rightarrow> localStorage st' = None \<and> local_lines st' = []
                   \<and> db st' = shop [row ''u1'' ''B'' 3])"
proof -
  let ?s = "signed_in [row ''u1'' ''B'' 3] (Some (JSON_of [line ''A'' 2, line ''B'' 1]))"
  have h: "user ?s = Some ''u1''" "localStorage ?s = Some (JSON_of [line ''A'' 2, line ''B'' 1])"
    by (simp_all add: signed_in_def)
  have w: "write_fails (stormy_first 0)" "\<not> write_fails (stormy_first 1)"
    "\<forall>k<length [line ''A'' 2, line ''B'' 1]. write_fails (always stormy k)"
    "db ?s = shop [row ''u1'' ''B'' 3]"
    by (simp_all add: sample_defs)
  have run: "syncLocalCart stormy_first ?s
       = Inr ((signed_in [row ''u1'' ''B'' 1] None)
               \<lparr>toasts := [error_toast ''Failed to add item to cart.'', added_toast ''Laptop''],
                console := [''Error adding to cart:'']\<rparr>)"
    by (simp add: syncLocalCart_def JSON_parse_def addToCart_def upsert_cart_items_def
        conflicts_def select_product_def sample_defs)
  from syncLocalCart_clears_local [OF h, of stormy_first]
    syncLocalCart_clears_local [OF h, of "always stormy"] h w run
  show ?thesis by (auto split: sum.splits)
qed

text \<open>
  C1. The reconciliation does not add: it sends every local line through the
  authenticated \<open>addToCart\<close>, whose upsert replaces the quantity. For a signed-in user
  whose stored cart has one line per product, all of products in the catalogue, and a
  backend that accepts every write, the reconciliation returns normally, each local
  line's product has in the remote cart exactly the local quantity (the line is created
  when absent, its quantity overwritten when present), and every other remote line keeps
  its quantity. Merging \<open>{A:2, B:1}\<close> into \<open>{B:3}\<close> gives \<open>{B:1, A:2}\<close>.
\<close>

theorem syncLocalCart_sets_quantities:
  assumes "user st = Some uid" and "localStorage st = Some (JSON_of ls)"
    and "distinct (map product_id ls)"
    and "\<forall>k<length ls. \<not> write_fails (envs k)"
    and "\<forall>l\<in>set ls. product_id l \<in> set (map prod_id (products (db st)))"
  shows "case syncLocalCart envs st of
           Inl err \<Rightarrow> False
         | Inr st' \<Rightarrow>
             (\<forall>l\<in>set ls. remote_qty (db st') uid (product_id l) = Some (qty l))
           \<and> (\<forall>u p. u \<noteq> uid \<or> p \<notin> set (map product_id ls) \<longrightarrow>
                 remote_qty (db st') u p = remote_qty (db st) u p)"
proof -
  from assms(4) have "\<forall>j<length ls. \<not> write_fails (envs (0 + j))" by simp
  from add_each_sets [OF assms(1) assms(3) this assms(5)]
  obtain st1 where "add_each envs 0 ls st = Inr st1"
    and "\<forall>l\<in>set ls. remote_qty (db st1) uid (product_id l) = Some (qty l)"
    and "\<forall>u p. u \<noteq> uid \<or> p \<notin> set (map product_id ls) \<longrightarrow>
            remote_qty (db st1) u p = remote_qty (db st) u p"
    by blast
  with assms(1,2) show ?thesis
    by (simp add: syncLocalCart_def JSON_parse_def)
qed

theorem syncLocalCart_sets_quantities_witness:
  "user (signed_in [row ''u1'' ''B'' 3] (Some (JSON_of [line ''A'' 2, line ''B'' 1]))) = Some ''u1''
   \<and> distinct (map product_id [line ''A'' 2, line ''B'' 1])
   \<and> \<not> write_fails (always calm 0) \<and> \<not> write_fails (always calm 1)
   \<and> ''A'' \<in> set (map prod_id
         (products (db (signed_in [row ''u1'' ''B'' 3] (Some (JSON_of [line ''A'' 2, line ''B'' 1]))))))
   \<and> ''B'' \<in> set (map prod_id
         (products (db (signed_in [row ''u1'' ''B'' 3] (Some (JSON_of [line ''A'' 2, line ''B'' 1]))))))
   \<and> (case syncLocalCart (always calm)
        (signed_in [row ''u1'' ''B'' 3] (Some (JSON_of [line ''A'' 2, line ''B'' 1]))) of
         Inl err \<Rightarrow> False
       | Inr st' \<Rightarrow> remote_qty (db st') ''u1'' ''A'' = Some 2
                   \<and> remote_qty (db st') ''u1'' ''B'' = Some 1)"
proof -
  let ?s = "signed_in [row ''u1'' ''B'' 3] (Some (JSON_of [line ''A'' 2, line ''B'' 1]))"
  have h1: "user ?s = Some ''u1''"
    and h2: "localStorage ?s = Some (JSON_of [line ''A'' 2, line ''B'' 1])"
    and h3: "distinct (map product_id [line ''A'' 2, line ''B'' 1])"
    and h4: "\<forall>k<length [line ''A'' 2, line ''B'' 1]. \<not> write_fails (always calm k)"
    and h5: "\<forall>l\<in>set [line ''A'' 2, line ''B'' 1]. product_id l \<in> set (map prod_id (products (db ?s)))"
    by (simp_all add: sample_defs)
  have v: "product_id (line ''A'' 2) = ''A''" "qty (line ''A'' 2) = 2"
    "product_id (line ''B'' 1) = ''B''" "qty (line ''B'' 1) = 1"
    by (simp_all add: line_def)
  have w: "\<not> write_fails (always calm 0)" "\<not> write_fails (always calm 1)"
    "''A'' \<in> set (map prod_id (products (db ?s)))" "''B'' \<in> set (map prod_id (products (db ?s)))"
    by (simp_all add: sample_defs)
  from syncLocalCart_sets_quantities [OF h1 h2 h3 h4 h5] h1 h3 v w
  show ?thesis by (auto split: sum.splits)
qed

text \<open>
  The example of the specification, on the code: the local cart \<open>{A:2, B:1}\<close> merged
  into the remote cart \<open>{B:3}\<close> leaves the remote rows \<open>B:1\<close> and \<open>A:2\<close>, not \<open>B:4\<close>.
\<close>

theorem syncLocalCart_overwrites_remote_quantity:
  "syncLocalCart (always calm)
     (signed_in [row ''u1'' ''B'' 3] (Some (JSON_of [line ''A'' 2, line ''B'' 1])))
   = Inr ((signed_in [row ''u1'' ''B'' 1, row ''u1'' ''A'' 2] None)
           \<lparr>toasts := [added_toast ''Phone'', added_toast ''Laptop'']\<rparr>)
   \<and> remote_qty (shop [row ''u1'' ''B'' 1, row ''u1'' ''A'' 2]) ''u1'' ''B'' = Some 1
   \<and> remote_qty (shop [row ''u1'' ''B'' 1, row ''u1'' ''A'' 2]) ''u1'' ''B'' \<noteq> Some (3 + 1)"
  by (simp add: syncLocalCart_def JSON_parse_def addToCart_def upsert_cart_items_def
      conflicts_def select_product_def remote_qty_def sample_defs)

text \<open>
  C9. When \<open>generate_order_id()\<close> returns, the result has twelve characters, is the
  identifier built from the time of the transaction and one of the random draws, is the
  \<open>order_id\<close> of no row of \<open>orders\<close> as the collision check read it, and every earlier
  draw of the loop gave an identifier that was taken. With a clock that is not before
  1970 the twelve characters are decimal digits.
\<close>

theorem generate_order_id_fresh:
  assumes "generate_order_id orders now_ms draws = Some oid"
  shows "length oid = 12
       \<and> oid \<notin> set (map order_id orders)
       \<and> (\<exists>n. oid = new_id now_ms (draws n)
              \<and> (\<forall>j<n. new_id now_ms (draws j) \<in> set (map order_id orders)))
       \<and> (0 \<le> now_ms \<longrightarrow> set oid \<subseteq> set digit_chars)"
proof -
  from assms have "generate_order_id_from orders now_ms draws 0 = Some oid"
    by (simp add: generate_order_id_def)
  then have "first_free orders now_ms draws 0 oid"
    by (rule generate_order_id_from_first_free)
  then obtain n where n: "oid = new_id now_ms (draws n)" "\<not> exists_check orders oid"
    "\<forall>j. 0 \<le> j \<and> j < n \<longrightarrow> exists_check orders (new_id now_ms (draws j))"
    unfolding first_free_def by blast
  from n(1) have "length oid = 12"
    by (simp add: length_new_id)
  moreover from n(2) have "oid \<notin> set (map order_id orders)"
    by (simp only: exists_check_iff not_False_eq_True)
  moreover from n(1,3) have "\<exists>n. oid = new_id now_ms (draws n)
              \<and> (\<forall>j<n. new_id now_ms (draws j) \<in> set (map order_id orders))"
    by (auto simp only: exists_check_iff)
  moreover from n(1) have "0 \<le> now_ms \<longrightarrow> set oid \<subseteq> set digit_chars"
    by (simp add: new_id_digits)
  ultimately show ?thesis by blast
qed

theorem generate_order_id_fresh_witness:
  "generate_order_id [order ''175868985707''] 1758689857123 draws_7_42 = Some ''175868985742''
   \<and> length ''175868985742'' = 12
   \<and> ''175868985742'' \<notin> set (map order_id [order ''175868985707''])
   \<and> new_id 1758689857123 (draws_7_42 0) = ''175868985707''
   \<and> new_id 1758689857123 (draws_7_42 1) = ''175868985742''
   \<and> (0::int) \<le> 1758689857123
   \<and> set ''175868985742'' \<subseteq> set digit_chars"
proof -
  have t: "nat_text 1758689857123 = ''1758689857123''" "nat_text 7 = ''7''" "nat_text 42 = ''42''"
    by (simp_all add: nat_text.simps digit_chars_def)
  have c: "new_id 1758689857123 7 = ''175868985707''" "new_id 1758689857123 42 = ''175868985742''"
    by (simp_all add: new_id_def lpad_def right_text_def bigint_text_def t)
  have d: "draws_7_42 0 = 7" "draws_7_42 (Suc 0) = 42" "draws_7_42 1 = 42"
    by (simp_all add: draws_7_42_def)
  have e: "exists_check [order ''175868985707''] ''175868985707''"
    "\<not> exists_check [order ''175868985707''] ''175868985742''"
    by (simp_all add: exists_check_def order_def)
  have "generate_order_id_from [order ''175868985707''] 1758689857123 draws_7_42 (Suc 0)
          = Some ''175868985742''"
    by (subst generate_order_id_from.simps) (simp add: c d e)
  then have "generate_order_id_from [order ''175868985707''] 1758689857123 draws_7_42 0
          = Some ''175868985742''"
    by (subst generate_order_id_from.simps) (simp add: c d e)
  then have run: "generate_order_id [order ''175868985707''] 1758689857123 draws_7_42
          = Some ''175868985742''"
    by (simp add: generate_order_id_def)
  from generate_order_id_fresh [OF run] run c d
  show ?thesis by simp
qed

end
